theory Spec2Isabelle
  imports Complex_Main
begin

chapter \<open>Model\<close>

section \<open>Numbers and values of the source language\<close>

text \<open>
  The backend is JavaScript. Its numbers are IEEE doubles: \<open>NaN\<close>,
  \<open>Infinity\<close>, \<open>-Infinity\<close> and the finite doubles, which are rationals.
  The two zeros are not told apart. The arithmetic of risk scoring is done in doubles,
  each operation rounding its exact result to the nearest double (below). The progress
  percentage of the commit batches and the division by 100 of confidence sanitization are
  computed on the rationals.
  \<open>Math.round x\<close> is \<open>\<lfloor>x + 1/2\<rfloor>\<close> (ties go up).
\<close>

definition js_round :: "rat \<Rightarrow> int" where
  "js_round x = \<lfloor>x + 1 / 2\<rfloor>"

datatype jsnum = NaN | NegInf | Fin rat | PosInf

text \<open>\<open>a > b\<close> on JavaScript numbers: false as soon as one side is \<open>NaN\<close>.\<close>

fun js_gt :: "jsnum \<Rightarrow> jsnum \<Rightarrow> bool" where
  "js_gt NaN _ = False"
| "js_gt _ NaN = False"
| "js_gt PosInf PosInf = False"
| "js_gt PosInf _ = True"
| "js_gt NegInf _ = False"
| "js_gt (Fin a) NegInf = True"
| "js_gt (Fin a) (Fin b) = (a > b)"
| "js_gt (Fin a) PosInf = False"

text \<open>\<open>a >= b\<close>.\<close>

definition js_ge :: "jsnum \<Rightarrow> jsnum \<Rightarrow> bool" where
  "js_ge a b = (a \<noteq> NaN \<and> b \<noteq> NaN \<and> \<not> js_gt b a)"

fun math_min :: "jsnum \<Rightarrow> jsnum \<Rightarrow> jsnum" where
  "math_min NaN _ = NaN"
| "math_min _ NaN = NaN"
| "math_min a b = (if js_gt a b then b else a)"

fun math_max :: "jsnum \<Rightarrow> jsnum \<Rightarrow> jsnum" where
  "math_max NaN _ = NaN"
| "math_max _ NaN = NaN"
| "math_max a b = (if js_gt a b then a else b)"

text \<open>\<open>x / 100\<close>.\<close>

fun div100 :: "jsnum \<Rightarrow> jsnum" where
  "div100 (Fin a) = Fin (a / 100)"
| "div100 x = x"

text \<open>\<open>x || 0\<close> on a number: \<open>0\<close> and \<open>NaN\<close> are falsy.\<close>

fun or_zero :: "jsnum \<Rightarrow> jsnum" where
  "or_zero NaN = Fin 0"
| "or_zero x = x"

subsection \<open>Double arithmetic\<close>

text \<open>
  A finite double is \<open>m * 2 ^ (e - 52)\<close> with an integer \<open>m\<close>,
  \<open>\<bar>m\<bar> < 2 ^ 53\<close>, and \<open>-1022 \<le> e \<le> 1023\<close>. \<open>to_double\<close> rounds a
  rational to the nearest double, a tie going to the even \<open>m\<close>: this is the
  rounding of every arithmetic operation and of a decimal literal. For \<open>\<bar>x\<bar> = p / q\<close>
  the exponent \<open>e\<close> is \<open>\<lfloor>log\<^sub>2 (p / q)\<rfloor>\<close>, and -1022 in the subnormal
  range; \<open>m\<close> is \<open>p / (q * 2 ^ (e - 52))\<close> rounded to an integer; a result
  that reaches \<open>2 ^ 1024\<close> is infinite.
\<close>

definition pow2 :: "int \<Rightarrow> rat" where
  "pow2 k = (if k \<ge> 0 then 2 ^ nat k else 1 / 2 ^ nat (- k))"

text \<open>The number of binary digits of a positive integer.\<close>

function bit_length :: "int \<Rightarrow> int" where
  "bit_length n = (if n \<le> 0 then 0 else 1 + bit_length (n div 2))"
  by pat_completeness auto

termination
  by (relation "measure nat") auto

declare bit_length.simps [simp del]

text \<open>
  \<open>\<lfloor>log\<^sub>2 (p / q)\<rfloor>\<close> for positive \<open>p\<close> and \<open>q\<close>: the difference
  \<open>d\<close> of their bit lengths if \<open>2 ^ d \<le> p / q\<close>, and \<open>d - 1\<close> otherwise.
\<close>

definition floor_log2 :: "int \<Rightarrow> int \<Rightarrow> int" where
  "floor_log2 p q =
     (let d = bit_length p - bit_length q
      in if (if d \<ge> 0 then 2 ^ nat d * q \<le> p else q \<le> p * 2 ^ nat (- d)) then d else d - 1)"

text \<open>\<open>n / d\<close> rounded to the nearest integer, a tie going to the even one.\<close>

definition round_half_even :: "int \<Rightarrow> int \<Rightarrow> int" where
  "round_half_even n d =
     (let f = n div d; r = n mod d
      in if 2 * r < d then f else if 2 * r > d then f + 1 else if even f then f else f + 1)"

definition to_double :: "rat \<Rightarrow> jsnum" where
  "to_double x =
     (if x = 0 then Fin 0
      else case quotient_of \<bar>x\<bar> of
        (p, q) \<Rightarrow>
          let e = max (floor_log2 p q) (- 1022);
              m = (if e \<le> 52 then round_half_even (p * 2 ^ nat (52 - e)) q
                   else round_half_even p (q * 2 ^ nat (e - 52)))
          in if e > 1023 \<or> (e = 1023 \<and> m = 2 ^ 53)
             then (if x > 0 then PosInf else NegInf)
             else Fin ((if x > 0 then 1 else - 1) * of_int m * pow2 (e - 52)))"

text \<open>\<open>a + b\<close>, \<open>a * b\<close> and \<open>a / b\<close> on doubles.\<close>

fun js_add :: "jsnum \<Rightarrow> jsnum \<Rightarrow> jsnum" where
  "js_add NaN _ = NaN"
| "js_add _ NaN = NaN"
| "js_add (Fin a) (Fin b) = to_double (a + b)"
| "js_add PosInf NegInf = NaN"
| "js_add NegInf PosInf = NaN"
| "js_add PosInf _ = PosInf"
| "js_add NegInf _ = NegInf"
| "js_add (Fin a) b = b"

fun js_mul :: "jsnum \<Rightarrow> jsnum \<Rightarrow> jsnum" where
  "js_mul NaN _ = NaN"
| "js_mul _ NaN = NaN"
| "js_mul (Fin a) (Fin b) = to_double (a * b)"
| "js_mul (Fin a) PosInf = (if a = 0 then NaN else if a > 0 then PosInf else NegInf)"
| "js_mul (Fin a) NegInf = (if a = 0 then NaN else if a > 0 then NegInf else PosInf)"
| "js_mul PosInf (Fin b) = (if b = 0 then NaN else if b > 0 then PosInf else NegInf)"
| "js_mul NegInf (Fin b) = (if b = 0 then NaN else if b > 0 then NegInf else PosInf)"
| "js_mul PosInf PosInf = PosInf"
| "js_mul PosInf NegInf = NegInf"
| "js_mul NegInf PosInf = NegInf"
| "js_mul NegInf NegInf = PosInf"

fun js_div :: "jsnum \<Rightarrow> jsnum \<Rightarrow> jsnum" where
  "js_div NaN _ = NaN"
| "js_div _ NaN = NaN"
| "js_div (Fin a) (Fin b) =
     (if b = 0 then (if a = 0 then NaN else if a > 0 then PosInf else NegInf)
      else to_double (a / b))"
| "js_div (Fin a) _ = Fin 0"
| "js_div PosInf (Fin b) = (if b \<ge> 0 then PosInf else NegInf)"
| "js_div NegInf (Fin b) = (if b \<ge> 0 then NegInf else PosInf)"
| "js_div _ _ = NaN"

text \<open>\<open>Math.round\<close> on a double: the nearest integer, a tie going up.\<close>

fun math_round :: "jsnum \<Rightarrow> jsnum" where
  "math_round (Fin x) = Fin (of_int \<lfloor>x + 1 / 2\<rfloor>)"
| "math_round x = x"

subsection \<open>Values\<close>

text \<open>
  A value as \<open>JSON.parse\<close> or an object literal may hold it; \<open>JSOther\<close> stands
  for booleans, arrays and objects, which the code treats alike.
\<close>

datatype js_value = JSNull | JSUndefined | JSNumber jsnum | JSString string | JSOther

section \<open>Confidence sanitization (analysisEngine.js, sanitizeConfidence)\<close>

definition endsWith_percent :: "string \<Rightarrow> bool" where
  "endsWith_percent s = (s \<noteq> [] \<and> last s = CHR ''%'')"

text \<open>
  The built-in \<open>parseFloat\<close> is a parameter \<open>pf\<close>: it maps a string to the
  number its longest numeric prefix denotes, or to \<open>NaN\<close>.
\<close>

definition sanitize_number :: "jsnum \<Rightarrow> jsnum" where
  "sanitize_number v =
     (if js_gt v (Fin 1) then math_min (div100 v) (Fin 1)
      else math_max (Fin 0) (math_min v (Fin 1)))"

fun sanitizeConfidence :: "(string \<Rightarrow> jsnum) \<Rightarrow> js_value \<Rightarrow> jsnum" where
  "sanitizeConfidence pf JSNull = Fin 0"
| "sanitizeConfidence pf JSUndefined = Fin 0"
| "sanitizeConfidence pf (JSString s) =
     (if endsWith_percent s
      then or_zero (math_min (math_max (div100 (pf s)) (Fin 0)) (Fin 1))
      else sanitize_number (pf s))"
| "sanitizeConfidence pf (JSNumber v) = sanitize_number v"
| "sanitizeConfidence pf JSOther = Fin 0"

text \<open>A number of the interval [0,1].\<close>

fun in_unit_interval :: "jsnum \<Rightarrow> bool" where
  "in_unit_interval (Fin r) = (0 \<le> r \<and> r \<le> 1)"
| "in_unit_interval _ = False"

text \<open>
  A decimal reader used where a concrete \<open>parseFloat\<close> is needed: optional sign,
  digits, optional fraction; anything after the numeric prefix is ignored, and a string
  with no such prefix gives \<open>NaN\<close>. (Leading blanks, exponents and the literal
  \<open>Infinity\<close> of the built-in are left out.)
\<close>

definition is_digit :: "char \<Rightarrow> bool" where
  "is_digit c = (c \<in> set ''0123456789'')"

definition digit_val :: "char \<Rightarrow> nat" where
  "digit_val c = of_char c - of_char (CHR ''0'')"

definition digits_val :: "string \<Rightarrow> nat" where
  "digits_val ds = foldl (\<lambda>acc c. 10 * acc + digit_val c) 0 ds"

definition parse_unsigned :: "string \<Rightarrow> rat option" where
  "parse_unsigned s =
     (let ip = takeWhile is_digit s; r = dropWhile is_digit s;
          fp = (case r of c # r' \<Rightarrow> if c = CHR ''.'' then takeWhile is_digit r' else [] | [] \<Rightarrow> [])
      in if ip = [] \<and> fp = [] then None
         else Some (of_nat (digits_val ip) + of_nat (digits_val fp) / 10 ^ length fp))"

definition parseFloat_decimal :: "string \<Rightarrow> jsnum" where
  "parseFloat_decimal s =
     (case s of
        [] \<Rightarrow> NaN
      | c # r \<Rightarrow>
          if c = CHR ''-'' then (case parse_unsigned r of None \<Rightarrow> NaN | Some q \<Rightarrow> Fin (- q))
          else if c = CHR ''+'' then (case parse_unsigned r of None \<Rightarrow> NaN | Some q \<Rightarrow> Fin q)
          else (case parse_unsigned s of None \<Rightarrow> NaN | Some q \<Rightarrow> Fin q))"

section \<open>Data model (models/Job.js)\<close>

datatype severity = Low | Medium | High | Critical

datatype risk_tier = Safe | TierLow | TierMedium | TierHigh | TierCritical

datatype risk_level = LevelLow | LevelMedium | LevelHigh | LevelCritical | LevelUnknown


text \<open>
  A template literal is kept as the list of its pieces, so that no number has to be
  printed: \<open>`Risk: ${x}`\<close> is \<open>[Str ''Risk: '', Num x]\<close>. \<open>Elapsed\<close> is a
  number read off the clock.
\<close>

datatype chunk = Str string | Num rat | Elapsed

type_synonym template = "chunk list"

record verdict =
  v_summary :: "string option"
  v_threats :: "string list"
  v_confidence :: jsnum

text \<open>
  Of a commit record the hash, author, message, risk score and verdict are kept; the mail
  address, date, file list, line counts, diff and local patterns take no part in what
  follows.
\<close>

record commit =
  c_hash :: string
  c_author :: string
  c_message :: string
  c_riskScore :: rat
  c_aiAnalysis :: "verdict option"

record typosquat =
  t_isTyposquat :: bool
  t_similarPackages :: "string list"
  t_confidence :: js_value

record dependency =
  d_name :: string
  d_version :: string
  d_riskLevel :: risk_tier
  d_vulnerabilities :: "string list"
  d_typosquatting :: typosquat
  d_aiAnalysis :: "verdict option"

datatype alert_type = DependencyAlert | CommitAlert | RuntimeAlert | AIAnalysisAlert

text \<open>The free-form \<open>details\<close> payload of an alert is not modelled.\<close>

record alert =
  a_severity :: severity
  a_type :: alert_type
  a_title :: string
  a_description :: template
  a_aiConfidence :: js_value

section \<open>Risk scoring, the arithmetic of calculateRiskScore\<close>

definition riskLevelScores :: "risk_tier \<Rightarrow> rat" where
  "riskLevelScores t =
     (case t of Safe \<Rightarrow> 0 | TierLow \<Rightarrow> 25 | TierMedium \<Rightarrow> 50 | TierHigh \<Rightarrow> 75
      | TierCritical \<Rightarrow> 100)"

definition severityScores :: "severity \<Rightarrow> rat" where
  "severityScores s = (case s of Low \<Rightarrow> 25 | Medium \<Rightarrow> 50 | High \<Rightarrow> 75 | Critical \<Rightarrow> 100)"

text \<open>The literals \<open>0.4\<close>, \<open>0.35\<close> and \<open>0.25\<close>: the doubles nearest to them.\<close>

definition weight_commits :: jsnum where
  "weight_commits = to_double (4 / 10)"

definition weight_dependencies :: jsnum where
  "weight_dependencies = to_double (35 / 100)"

definition weight_alerts :: jsnum where
  "weight_alerts = to_double (25 / 100)"

text \<open>
  The body of the \<open>try\<close> block up to the assignment of \<open>riskScore\<close> and
  \<open>riskLevel\<close>: \<open>totalScore\<close> and \<open>factors\<close> are threaded through the three
  \<open>if\<close> statements, every \<open>+\<close>, \<open>*\<close> and \<open>/\<close> being that of the
  doubles. A list's length is an integer below \<open>2 ^ 32\<close>, hence a double.
\<close>

definition computeRiskScore :: "commit list \<Rightarrow> dependency list \<Rightarrow> alert list \<Rightarrow> jsnum \<times> risk_level" where
  "computeRiskScore commits dependencies alerts =
     (let totalScore0 = Fin 0; factors0 = Fin 0;
          (totalScore1, factors1) =
            (if length commits > 0
             then (let avgCommitRisk =
                         js_div (foldl (\<lambda>sum c. js_add sum (Fin (c_riskScore c))) (Fin 0) commits)
                           (Fin (of_nat (length commits)))
                   in (js_add totalScore0 (js_mul avgCommitRisk weight_commits),
                       js_add factors0 weight_commits))
             else (totalScore0, factors0));
          (totalScore2, factors2) =
            (if length dependencies > 0
             then (let avgDependencyRisk =
                         js_div
                           (foldl (\<lambda>sum d. js_add sum (Fin (riskLevelScores (d_riskLevel d))))
                              (Fin 0) dependencies)
                           (Fin (of_nat (length dependencies)))
                   in (js_add totalScore1 (js_mul avgDependencyRisk weight_dependencies),
                       js_add factors1 weight_dependencies))
             else (totalScore1, factors1));
          (totalScore3, factors3) =
            (if length alerts > 0
             then (let avgAlertSeverity =
                         js_div
                           (foldl (\<lambda>sum a. js_add sum (Fin (severityScores (a_severity a))))
                              (Fin 0) alerts)
                           (Fin (of_nat (length alerts)))
                   in (js_add totalScore2 (js_mul avgAlertSeverity weight_alerts),
                       js_add factors2 weight_alerts))
             else (totalScore2, factors2));
          riskScore =
            (if js_gt factors3 (Fin 0) then math_round (js_div totalScore3 factors3) else Fin 0);
          riskLevel =
            (if js_ge riskScore (Fin 75) then LevelCritical
             else if js_ge riskScore (Fin 50) then LevelHigh
             else if js_ge riskScore (Fin 25) then LevelMedium
             else LevelLow)
      in (riskScore, riskLevel))"

subsection \<open>The scoring rule as the specification words it\<close>

text \<open>Sum and mean of a list of numbers, added from the left in doubles.\<close>

definition double_sum :: "jsnum list \<Rightarrow> jsnum" where
  "double_sum xs = foldl js_add (Fin 0) xs"

definition mean :: "rat list \<Rightarrow> jsnum" where
  "mean xs = js_div (double_sum (map Fin xs)) (Fin (of_nat (length xs)))"

definition tier_value :: "risk_tier \<Rightarrow> rat" where
  "tier_value t =
     (if t = Safe then 0 else if t = TierLow then 25 else if t = TierMedium then 50
      else if t = TierHigh then 75 else 100)"

definition severity_value :: "severity \<Rightarrow> rat" where
  "severity_value s =
     (if s = Low then 25 else if s = Medium then 50 else if s = High then 75 else 100)"

text \<open>The factors present, each with its nominal weight.\<close>

definition spec_factors :: "commit list \<Rightarrow> dependency list \<Rightarrow> alert list \<Rightarrow> (jsnum \<times> jsnum) list" where
  "spec_factors cs ds als =
     (if cs = [] then [] else [(mean (map c_riskScore cs), to_double (40 / 100))]) @
     (if ds = [] then [] else [(mean (map (tier_value \<circ> d_riskLevel) ds), to_double (35 / 100))]) @
     (if als = [] then [] else [(mean (map (severity_value \<circ> a_severity) als), to_double (25 / 100))])"

text \<open>
  The sum of the products factor times weight over the sum of the weights, rounded to
  the nearest integer; 0 when no factor is present.
\<close>

definition spec_score :: "commit list \<Rightarrow> dependency list \<Rightarrow> alert list \<Rightarrow> jsnum" where
  "spec_score cs ds als =
     (let fs = spec_factors cs ds als
      in if fs = [] then Fin 0
         else math_round
                (js_div (double_sum (map (\<lambda>(f, w). js_mul f w) fs)) (double_sum (map snd fs))))"

text \<open>The four bands of an integer score.\<close>

definition spec_level :: "int \<Rightarrow> risk_level" where
  "spec_level s =
     (if s < 25 then LevelLow else if s \<le> 49 then LevelMedium
      else if s \<le> 74 then LevelHigh else LevelCritical)"

text \<open>
  The level of a score: its band when it is finite; an infinite score is above or below
  every band, and \<open>NaN\<close> compares with nothing.
\<close>

definition spec_level_of :: "jsnum \<Rightarrow> risk_level" where
  "spec_level_of s =
     (case s of Fin x \<Rightarrow> spec_level \<lfloor>x\<rfloor> | PosInf \<Rightarrow> LevelCritical | NegInf \<Rightarrow> LevelLow
      | NaN \<Rightarrow> LevelLow)"

text \<open>The two inputs of the specification's worked example.\<close>

definition commit80 :: commit where
  "commit80 = \<lparr>c_hash = ''0123456789abcdef'', c_author = ''dev'', c_message = ''update'',
     c_riskScore = 80, c_aiAnalysis = None\<rparr>"

definition critical_alert :: alert where
  "critical_alert = \<lparr>a_severity = Critical, a_type = CommitAlert, a_title = ''t'',
     a_description = [], a_aiConfidence = JSUndefined\<rparr>"

text \<open>A commit with a given risk score and an alert with a given severity.\<close>

definition commit_scored :: "rat \<Rightarrow> commit" where
  "commit_scored r = commit80\<lparr>c_riskScore := r\<rparr>"

definition alert_of :: "severity \<Rightarrow> alert" where
  "alert_of s = critical_alert\<lparr>a_severity := s\<rparr>"

section \<open>Sandbox manager (DockerService: stopContainer, cleanup)\<close>

datatype log_level = LvInfo | LvWarn | LvError | LvDebug

text \<open>
  What \<open>container.stop({ t: 10 })\<close> answers: it resolves, or it rejects with an error
  that may carry an HTTP status code (304: the container is already stopped).
\<close>

datatype stop_result = StopOk | StopRejected "nat option"

text \<open>
  The service's registry \<open>activeContainers\<close> maps a job id to its container (here the
  container's id). \<open>console\<close> is what the service's logger printed and
  \<open>stop_requests\<close> the containers on which \<open>stop\<close> was invoked.
\<close>

record docker_service =
  activeContainers :: "string \<rightharpoonup> string"
  console :: "(log_level \<times> string) list"
  stop_requests :: "string list"

definition console_log :: "log_level \<Rightarrow> string \<Rightarrow> docker_service \<Rightarrow> docker_service" where
  "console_log lv m s = s\<lparr>console := console s @ [(lv, m)]\<rparr>"

text \<open>
  The inner \<open>try\<close> of stopContainer: status 304 is logged as already stopped, any
  other rejection is thrown again.
\<close>

definition stop_tolerating_304 ::
  "stop_result \<Rightarrow> string \<Rightarrow> docker_service \<Rightarrow> (stop_result + unit) \<times> docker_service" where
  "stop_tolerating_304 r c s =
     (let s1 = s\<lparr>stop_requests := stop_requests s @ [c]\<rparr>
      in case r of
           StopOk \<Rightarrow> (Inr (), console_log LvInfo ''Container stopped'' s1)
         | StopRejected code \<Rightarrow>
             if code = Some 304 then (Inr (), console_log LvInfo ''Container was already stopped'' s1)
             else (Inl r, s1))"

text \<open>
  \<open>stopContainer jobId\<close>; \<open>r\<close> is the answer of the container to \<open>stop\<close>, should
  it be asked. The outer \<open>catch\<close> logs and swallows every error.
\<close>

definition stopContainer ::
  "stop_result \<Rightarrow> string \<Rightarrow> docker_service \<Rightarrow> (stop_result + unit) \<times> docker_service" where
  "stopContainer r jobId s =
     (let attempt =
            (case activeContainers s jobId of
               None \<Rightarrow> (Inr (), console_log LvWarn ''Container not found for cleanup'' s)
             | Some c \<Rightarrow>
                 (case stop_tolerating_304 r c (console_log LvInfo ''Stopping container...'' s) of
                    (Inl e, s') \<Rightarrow> (Inl e, s')
                  | (Inr u, s') \<Rightarrow>
                      (Inr (), s'\<lparr>activeContainers := (activeContainers s')(jobId := None)\<rparr>)))
      in case attempt of
           (Inl e, s') \<Rightarrow> (Inr (), console_log LvError ''Failed to stop container'' s')
         | (Inr u, s') \<Rightarrow> (Inr (), s'))"

definition docker_cleanup ::
  "stop_result \<Rightarrow> string \<Rightarrow> docker_service \<Rightarrow> (stop_result + unit) \<times> docker_service" where
  "docker_cleanup r jobId s =
     (case stopContainer r jobId s of
        (Inl e, s') \<Rightarrow> (Inr (), console_log LvError ''Cleanup failed'' s')
      | (Inr u, s') \<Rightarrow> (Inr (), console_log LvInfo ''Container cleanup completed'' s'))"

definition one_container :: docker_service where
  "one_container = \<lparr>activeContainers = [''job_1'' \<mapsto> ''c0ffee''], console = [], stop_requests = []\<rparr>"

section \<open>Threat oracle adapter (AIService)\<close>

text \<open>
  An object as \<open>JSON.parse\<close> or an object literal of the adapter yields it, reduced to
  the fields the engine reads; an absent field is \<open>None\<close> (\<open>JSUndefined\<close> for the
  confidence).
\<close>

record analysis =
  an_riskScore :: "rat option"
  an_riskLevel :: "risk_tier option"
  an_threats :: "string list option"
  an_typosquatting :: "typosquat option"
  an_confidence :: js_value
  an_summary :: "string option"
  an_overallThreat :: "string option"
  an_error :: "string option"
  an_rawResponse :: "string option"

definition no_fields :: analysis where
  "no_fields = \<lparr>an_riskScore = None, an_riskLevel = None, an_threats = None,
     an_typosquatting = None, an_confidence = JSUndefined, an_summary = None,
     an_overallThreat = None, an_error = None, an_rawResponse = None\<rparr>"

text \<open>
  The HTTP call to the model server: it fails (or times out), or it answers with a body
  whose \<open>response\<close> field is a string or is missing.
\<close>

datatype http_result = HttpFailed | HttpOk "string option"

definition fallback_response :: string where
  "fallback_response = ''AI service unavailable - using fallback analysis''"

text \<open>The \<open>response\<close> field of what generateResponse returns; it never throws.\<close>

definition generateResponse :: "bool \<Rightarrow> http_result \<Rightarrow> string option" where
  "generateResponse isAvailable http =
     (if \<not> isAvailable then Some fallback_response
      else case http of HttpFailed \<Rightarrow> Some fallback_response | HttpOk r \<Rightarrow> r)"

text \<open>
  \<open>response.match(/\{[\s\S]*\}/)\<close>: the text from the first opening brace to the last
  closing brace after it, if there is one.
\<close>

definition json_match :: "string \<Rightarrow> string option" where
  "json_match s =
     (let from_brace = dropWhile (\<lambda>c. c \<noteq> CHR ''{'') s;
          to_brace = rev (dropWhile (\<lambda>c. c \<noteq> CHR ''}'') (rev from_brace))
      in if to_brace = [] then None else Some to_brace)"

definition parse_failure :: "string \<Rightarrow> string option \<Rightarrow> analysis" where
  "parse_failure msg raw = no_fields\<lparr>an_error := Some msg, an_rawResponse := raw\<rparr>"

text \<open>
  parseAIResponse; \<open>jp\<close> is \<open>JSON.parse\<close> (\<open>None\<close> when it throws). A missing
  response makes \<open>response.match\<close> throw inside the \<open>try\<close>. No path throws.
\<close>

definition parseAIResponse :: "(string \<Rightarrow> analysis option) \<Rightarrow> string option \<Rightarrow> analysis" where
  "parseAIResponse jp response =
     (case response of
        None \<Rightarrow> parse_failure ''JSON parse error'' None
      | Some r \<Rightarrow>
          (case json_match r of
             Some m \<Rightarrow> (case jp m of Some a \<Rightarrow> a | None \<Rightarrow> parse_failure ''JSON parse error'' (Some r))
           | None \<Rightarrow> parse_failure ''Could not parse AI response'' (Some r)))"

definition getFallbackCommitAnalysis :: analysis where
  "getFallbackCommitAnalysis = no_fields\<lparr>an_riskScore := Some 25,
     an_threats := Some [''AI analysis unavailable''],
     an_confidence := JSNumber (Fin (1 / 10)),
     an_summary := Some ''Fallback analysis - AI service unavailable''\<rparr>"

definition getFallbackDependencyAnalysis :: analysis where
  "getFallbackDependencyAnalysis = no_fields\<lparr>an_riskLevel := Some TierMedium,
     an_threats := Some [''AI analysis unavailable''],
     an_typosquatting := Some \<lparr>t_isTyposquat = False, t_similarPackages = [],
       t_confidence = JSNumber (Fin (1 / 10))\<rparr>,
     an_confidence := JSNumber (Fin (1 / 10)),
     an_summary := Some ''Fallback analysis - AI service unavailable''\<rparr>"

definition getFallbackOverallAssessment :: analysis where
  "getFallbackOverallAssessment = no_fields\<lparr>an_overallThreat := Some ''medium'',
     an_confidence := JSNumber (Fin (1 / 10))\<rparr>"

text \<open>
  The \<open>try\<close> block shared by analyzeCommit, analyzeDependency and
  generateOverallAssessment: the response is generated, parsed and returned. Neither
  call throws, so the block always returns.
\<close>

definition ask_oracle :: "bool \<Rightarrow> (string \<Rightarrow> analysis option) \<Rightarrow> http_result \<Rightarrow> string + analysis" where
  "ask_oracle isAvailable jp http = Inr (parseAIResponse jp (generateResponse isAvailable http))"

definition analyzeCommit :: "bool \<Rightarrow> (string \<Rightarrow> analysis option) \<Rightarrow> http_result \<Rightarrow> analysis" where
  "analyzeCommit isAvailable jp http =
     (case ask_oracle isAvailable jp http of
        Inr a \<Rightarrow> a
      | Inl e \<Rightarrow> getFallbackCommitAnalysis)"

definition analyzeDependency :: "bool \<Rightarrow> (string \<Rightarrow> analysis option) \<Rightarrow> http_result \<Rightarrow> analysis" where
  "analyzeDependency isAvailable jp http =
     (case ask_oracle isAvailable jp http of
        Inr a \<Rightarrow> a
      | Inl e \<Rightarrow> getFallbackDependencyAnalysis)"

definition generateOverallAssessment :: "bool \<Rightarrow> (string \<Rightarrow> analysis option) \<Rightarrow> http_result \<Rightarrow> analysis" where
  "generateOverallAssessment isAvailable jp http =
     (case ask_oracle isAvailable jp http of
        Inr a \<Rightarrow> a
      | Inl e \<Rightarrow> getFallbackOverallAssessment)"

section \<open>The job and the engine's state (models/Job.js, AnalysisEngine)\<close>

datatype status = Pending | Cloning | Building | Analyzing | Completed | Failed

datatype log_source = SrcBuild | SrcAnalysis | SrcSystem | SrcAI

datatype project_type = NodeJS | Python

record log_entry =
  l_level :: log_level
  l_message :: template
  l_source :: log_source

record repo_info =
  r_fullName :: string
  r_localPath :: string
  r_totalCommits :: nat
  r_lastCommit :: "string option"

text \<open>Time stamps and durations are left out: \<open>endTime_set\<close> only says that \<open>endTime\<close> was written.\<close>

record build_info =
  b_success :: bool
  b_errors :: "string list"
  b_warnings :: "string list"

record job =
  jobId :: string
  repoUrl :: string
  projectType :: project_type
  status :: status
  progress :: int
  endTime_set :: bool
  repoInfo :: "repo_info option"
  riskScore :: "jsnum option"
  riskLevel :: "risk_level option"
  commits :: "commit list"
  dependencies :: "dependency list"
  alerts :: "alert list"
  logs :: "log_entry list"
  aiSummary :: "analysis option"
  buildInfo :: "build_info option"

definition new_job :: "string \<Rightarrow> string \<Rightarrow> project_type \<Rightarrow> job" where
  "new_job jid url ptype = \<lparr>jobId = jid, repoUrl = url, projectType = ptype, status = Pending,
     progress = 0, endTime_set = False, repoInfo = None, riskScore = None, riskLevel = None,
     commits = [], dependencies = [], alerts = [], logs = [], aiSummary = None,
     buildInfo = None\<rparr>"

text \<open>The payload of a \<open>done\<close> event, and the four kinds of event sent to the job's room.\<close>

record done_payload =
  dn_riskScore :: "jsnum option"
  dn_riskLevel :: "risk_level option"
  dn_totalAlerts :: nat
  dn_criticalAlerts :: nat
  dn_dependencyIssues :: nat
  dn_commitIssues :: nat
  dn_alerts :: "alert list"
  dn_aiSummary :: "analysis option"
  dn_error :: "string option"

datatype event =
    LogEvent log_level template log_source
  | AlertEvent alert
  | ProgressEvent int status
  | DoneEvent done_payload

text \<open>
  The state one background run works on: the job object; whether \<open>activeJobs\<close> maps
  the job's id to it; the events emitted so far; the job ids handed to
  \<open>githubService.cleanup\<close>, which removes the job's workspace directory; the number of
  \<open>save()\<close> calls made so far; the DockerService singleton. \<open>history\<close> is a ghost
  field: every assignment to \<open>job.status\<close> or \<open>job.progress\<close> appends the pair of
  both fields as it then stands.
\<close>

record world =
  job :: job
  activeJobs :: bool
  events :: "event list"
  cleanups :: "string list"
  saves :: nat
  sandbox :: docker_service
  history :: "(status \<times> int) list"

text \<open>The places of the source where \<open>save()\<close> is called, by enclosing function.\<close>

datatype save_site =
    In_startAnalysis | In_addLog | In_addAlert | In_updateJobStatus | In_cloneRepository
  | In_analyzeCommits | In_analyzeDependencies | In_runAIAnalysis
  | In_calculateRiskScore | In_calculateRiskScore_catch | In_generateFinalAssessment
  | In_runAnalysis | In_handleAnalysisError

datatype find_result = FindFailed string | FindNone | FindSome

record raw_dependency =
  rd_name :: string
  rd_version :: string

text \<open>
  Everything outside the engine. \<open>save_error site n\<close> is the outcome of the \<open>save()\<close>
  at \<open>site\<close> when \<open>n\<close> saves were made before it: \<open>None\<close> when the document is
  stored, \<open>Some m\<close> when it rejects with message \<open>m\<close> (database unreachable,
  validation failure). The other fields are the results of githubService, of the model
  server, of \<open>JSON.parse\<close> and \<open>parseFloat\<close>, and of \<open>Job.findOne\<close>;
  \<open>docker_state\<close> is the state of the DockerService singleton when the job is submitted.
\<close>

record env =
  save_error :: "save_site \<Rightarrow> nat \<Rightarrow> string option"
  clone_result :: "string + repo_info"
  commits_result :: "string + commit list"
  found_dependencies :: "raw_dependency list"
  ai_available :: bool
  ai_commit_reply :: "commit \<Rightarrow> http_result"
  ai_dependency_reply :: "raw_dependency \<Rightarrow> http_result"
  ai_overall_reply :: http_result
  json_parse :: "string \<Rightarrow> analysis option"
  parse_float :: "string \<Rightarrow> jsnum"
  find_one :: find_result
  docker_state :: docker_service

subsection \<open>Actions: state passing with exceptions\<close>

text \<open>
  An asynchronous method is a function from the state to a result and the new state;
  \<open>Inl m\<close> is a thrown error with message \<open>m\<close>. The awaited calls of one run are
  executed in program order.
\<close>

type_synonym action = "world \<Rightarrow> (string + unit) \<times> world"

definition succeed :: action where
  "succeed w = (Inr (), w)"

definition throw :: "string \<Rightarrow> action" where
  "throw m w = (Inl m, w)"

definition modify :: "(world \<Rightarrow> world) \<Rightarrow> action" where
  "modify f w = (Inr (), f w)"

definition update_job :: "(job \<Rightarrow> job) \<Rightarrow> action" where
  "update_job f = modify (\<lambda>w. w\<lparr>job := f (job w)\<rparr>)"

text \<open>Statements in sequence: the first error ends the sequence.\<close>

fun seq :: "action list \<Rightarrow> action" where
  "seq [] w = (Inr (), w)"
| "seq (a # as) w = (case a w of (Inl m, w') \<Rightarrow> (Inl m, w') | (Inr u, w') \<Rightarrow> seq as w')"

definition try_catch :: "action \<Rightarrow> (string \<Rightarrow> action) \<Rightarrow> action" where
  "try_catch body handler w =
     (case body w of (Inl m, w') \<Rightarrow> handler m w' | (Inr u, w') \<Rightarrow> (Inr (), w'))"

text \<open>An action that depends on the value an expression has in the current state.\<close>

definition reading :: "(world \<Rightarrow> 'a) \<Rightarrow> ('a \<Rightarrow> action) \<Rightarrow> action" where
  "reading f k w = k (f w) w"

definition save :: "env \<Rightarrow> save_site \<Rightarrow> action" where
  "save env site w =
     (case save_error env site (saves w) of
        None \<Rightarrow> (Inr (), w\<lparr>saves := saves w + 1\<rparr>)
      | Some m \<Rightarrow> (Inl m, w\<lparr>saves := saves w + 1\<rparr>))"

definition assign_status :: "status \<Rightarrow> action" where
  "assign_status s =
     modify (\<lambda>w. w\<lparr>job := (job w)\<lparr>status := s\<rparr>, history := history w @ [(s, progress (job w))]\<rparr>)"

definition assign_progress :: "int \<Rightarrow> action" where
  "assign_progress p =
     modify (\<lambda>w. w\<lparr>job := (job w)\<lparr>progress := p\<rparr>, history := history w @ [(status (job w), p)]\<rparr>)"

definition emit :: "event \<Rightarrow> action" where
  "emit ev = modify (\<lambda>w. w\<lparr>events := events w @ [ev]\<rparr>)"

subsection \<open>Job methods\<close>

definition addLog :: "env \<Rightarrow> log_level \<Rightarrow> template \<Rightarrow> log_source \<Rightarrow> action" where
  "addLog env lv msg src =
     seq [update_job (\<lambda>j. j\<lparr>logs := logs j @ [\<lparr>l_level = lv, l_message = msg, l_source = src\<rparr>]\<rparr>),
          save env In_addLog]"

definition addAlert :: "env \<Rightarrow> alert \<Rightarrow> action" where
  "addAlert env a = seq [update_job (\<lambda>j. j\<lparr>alerts := alerts j @ [a]\<rparr>), save env In_addAlert]"

text \<open>
  When the job is not in \<open>activeJobs\<close>, emitLog and emitAlert load a copy with
  \<open>Job.findOne\<close> and call the method on the copy: the job object of the run is not
  touched, a found copy is saved.
\<close>

definition on_stored_copy :: "env \<Rightarrow> save_site \<Rightarrow> action" where
  "on_stored_copy env site =
     (case find_one env of
        FindFailed m \<Rightarrow> throw m
      | FindNone \<Rightarrow> succeed
      | FindSome \<Rightarrow> save env site)"

subsection \<open>Engine methods\<close>

definition emitLog :: "env \<Rightarrow> log_level \<Rightarrow> template \<Rightarrow> log_source \<Rightarrow> action" where
  "emitLog env lv msg src =
     try_catch
       (seq [reading activeJobs
               (\<lambda>active. if active then addLog env lv msg src else on_stored_copy env In_addLog),
             emit (LogEvent lv msg src)])
       (\<lambda>error. emit (LogEvent lv msg src))"

definition emitAlert :: "env \<Rightarrow> alert \<Rightarrow> action" where
  "emitAlert env a =
     try_catch
       (seq [reading activeJobs
               (\<lambda>active. if active then addAlert env a else on_stored_copy env In_addAlert),
             emit (AlertEvent a)])
       (\<lambda>error. emit (AlertEvent a))"

definition status_name :: "status \<Rightarrow> string" where
  "status_name s =
     (case s of Pending \<Rightarrow> ''pending'' | Cloning \<Rightarrow> ''cloning'' | Building \<Rightarrow> ''building''
      | Analyzing \<Rightarrow> ''analyzing'' | Completed \<Rightarrow> ''completed'' | Failed \<Rightarrow> ''failed'')"

definition updateJobStatus :: "env \<Rightarrow> status \<Rightarrow> int \<Rightarrow> action" where
  "updateJobStatus env st p =
     try_catch
       (seq [assign_status st,
             assign_progress p,
             addLog env LvInfo
               [Str ''Status updated: '', Str (status_name st), Str '' ('', Num (of_int p), Str ''%)'']
               SrcSystem,
             save env In_updateJobStatus,
             emit (ProgressEvent p st)])
       (\<lambda>error. throw error)"

definition cloneRepository :: "env \<Rightarrow> action" where
  "cloneRepository env =
     try_catch
       (seq [reading (\<lambda>w. repoUrl (job w))
               (\<lambda>url. emitLog env LvInfo [Str ''Cloning repository: '', Str url] SrcSystem),
             (case clone_result env of
                Inl m \<Rightarrow> throw m
              | Inr repo \<Rightarrow>
                  seq [update_job (\<lambda>j. j\<lparr>repoInfo := Some repo\<rparr>),
                       save env In_cloneRepository,
                       emitLog env LvInfo
                         [Str ''Repository cloned successfully: '', Str (r_fullName repo)] SrcSystem])])
       (\<lambda>error.
          seq [emitLog env LvError [Str ''Failed to clone repository: '', Str error] SrcSystem,
               throw error])"

subsection \<open>Commit analysis\<close>

text \<open>\<open>summary || alternative\<close>: a missing or empty summary is falsy.\<close>

definition summary_or :: "string option \<Rightarrow> template \<Rightarrow> template" where
  "summary_or summary alternative =
     (case summary of None \<Rightarrow> alternative | Some s \<Rightarrow> if s = [] then alternative else [Str s])"

text \<open>The verdict the engine builds from what the adapter returned.\<close>

definition verdict_of :: "env \<Rightarrow> analysis \<Rightarrow> verdict" where
  "verdict_of env aiAnalysis =
     \<lparr>v_summary = an_summary aiAnalysis,
      v_threats = (case an_threats aiAnalysis of None \<Rightarrow> [] | Some ts \<Rightarrow> ts),
      v_confidence = sanitizeConfidence (parse_float env) (an_confidence aiAnalysis)\<rparr>"

text \<open>
  The commit as it is pushed onto \<open>job.commits\<close>: \<open>riskScore\<close> is
  \<open>aiAnalysis.riskScore || 0\<close>.
\<close>

definition classified_commit :: "env \<Rightarrow> commit \<Rightarrow> commit" where
  "classified_commit env c =
     (let aiAnalysis = analyzeCommit (ai_available env) (json_parse env) (ai_commit_reply env c)
      in c\<lparr>c_riskScore := (case an_riskScore aiAnalysis of None \<Rightarrow> 0 | Some r \<Rightarrow> r),
            c_aiAnalysis := Some (verdict_of env aiAnalysis)\<rparr>)"

definition commit_severity :: "rat \<Rightarrow> severity" where
  "commit_severity score = (if score > 90 then Critical else High)"

text \<open>The alert given to \<open>job.addAlert\<close> and the one given to emitAlert.\<close>

definition commit_alert_stored :: "env \<Rightarrow> commit \<Rightarrow> alert" where
  "commit_alert_stored env c =
     (let aiAnalysis = analyzeCommit (ai_available env) (json_parse env) (ai_commit_reply env c);
          c' = classified_commit env c
      in \<lparr>a_severity = commit_severity (c_riskScore c'),
          a_type = CommitAlert,
          a_title = ''High-risk commit detected: '' @ take 8 (c_hash c'),
          a_description =
            [Str ''Commit by '', Str (c_author c'), Str '' has risk score of '', Num (c_riskScore c')],
          a_aiConfidence = an_confidence aiAnalysis\<rparr>)"

definition commit_alert_emitted :: "env \<Rightarrow> commit \<Rightarrow> alert" where
  "commit_alert_emitted env c =
     (let aiAnalysis = analyzeCommit (ai_available env) (json_parse env) (ai_commit_reply env c);
          c' = classified_commit env c
      in \<lparr>a_severity = commit_severity (c_riskScore c'),
          a_type = CommitAlert,
          a_title = ''High-risk commit: '' @ take 8 (c_hash c'),
          a_description = summary_or (an_summary aiAnalysis) [Str ''Suspicious patterns detected''],
          a_aiConfidence = JSUndefined\<rparr>)"

text \<open>
  The body of the inner loop of analyzeCommits, with its \<open>try\<close>/\<open>catch\<close>: an error
  while storing the alert is only printed, and skips the rest of this commit.
\<close>

definition processCommit :: "env \<Rightarrow> commit \<Rightarrow> action" where
  "processCommit env c =
     try_catch
       (seq [update_job (\<lambda>j. j\<lparr>commits := commits j @ [classified_commit env c]\<rparr>),
             (if c_riskScore (classified_commit env c) > 70
              then seq [addAlert env (commit_alert_stored env c),
                        emitAlert env (commit_alert_emitted env c)]
              else succeed),
             emitLog env LvInfo
               [Str ''Analyzed commit '', Str (take 8 (c_hash c)), Str '' - Risk: '',
                Num (c_riskScore (classified_commit env c))]
               SrcAnalysis])
       (\<lambda>error. succeed)"

text \<open>
  The outer loop \<open>for (let i = 0; i < commits.length; i += batchSize)\<close> from index
  \<open>i\<close> on, with \<open>batchSize = 5\<close> and \<open>batch = commits.slice(i, i + batchSize)\<close>.
\<close>

function batches :: "env \<Rightarrow> commit list \<Rightarrow> nat \<Rightarrow> action" where
  "batches env cs i w =
     (if i < length cs
      then (case seq [seq (map (processCommit env) (take 5 (drop i cs))),
                      updateJobStatus env Analyzing
                        (15 + js_round (of_nat i / of_nat (length cs) * 25))] w of
              (Inl m, w') \<Rightarrow> (Inl m, w')
            | (Inr u, w') \<Rightarrow> batches env cs (i + 5) w')
      else (Inr (), w))"
  by pat_completeness auto
termination
  by (relation "measure (\<lambda>(env, cs, i, w). length cs - i)") auto

definition analyzeCommits :: "env \<Rightarrow> action" where
  "analyzeCommits env =
     try_catch
       (case commits_result env of
          Inl m \<Rightarrow> throw m
        | Inr cs \<Rightarrow>
            seq [emitLog env LvInfo
                   [Str ''Found '', Num (of_nat (length cs)), Str '' commits to analyze''] SrcAnalysis,
                 batches env cs 0,
                 save env In_analyzeCommits])
       (\<lambda>error.
          seq [emitLog env LvError [Str ''Commit analysis failed: '', Str error] SrcAnalysis,
               throw error])"

subsection \<open>Dependency analysis\<close>

definition tier_name :: "risk_tier \<Rightarrow> string" where
  "tier_name t =
     (case t of Safe \<Rightarrow> ''safe'' | TierLow \<Rightarrow> ''low'' | TierMedium \<Rightarrow> ''medium''
      | TierHigh \<Rightarrow> ''high'' | TierCritical \<Rightarrow> ''critical'')"

definition analyzed_dependency :: "env \<Rightarrow> raw_dependency \<Rightarrow> dependency" where
  "analyzed_dependency env d =
     (let aiAnalysis =
            analyzeDependency (ai_available env) (json_parse env) (ai_dependency_reply env d)
      in \<lparr>d_name = rd_name d,
          d_version = rd_version d,
          d_riskLevel = (case an_riskLevel aiAnalysis of None \<Rightarrow> Safe | Some t \<Rightarrow> t),
          d_vulnerabilities = (case an_threats aiAnalysis of None \<Rightarrow> [] | Some ts \<Rightarrow> ts),
          d_typosquatting =
            (case an_typosquatting aiAnalysis of
               None \<Rightarrow> \<lparr>t_isTyposquat = False, t_similarPackages = [],
                         t_confidence = JSNumber (Fin 0)\<rparr>
             | Some t \<Rightarrow> t),
          d_aiAnalysis = Some (verdict_of env aiAnalysis)\<rparr>)"

definition join_comma :: "string list \<Rightarrow> string" where
  "join_comma xs = (case xs of [] \<Rightarrow> [] | x # r \<Rightarrow> foldl (\<lambda>acc y. acc @ '', '' @ y) x r)"

definition processDependency :: "env \<Rightarrow> raw_dependency \<Rightarrow> action" where
  "processDependency env d =
     (let aiAnalysis =
            analyzeDependency (ai_available env) (json_parse env) (ai_dependency_reply env d);
          ad = analyzed_dependency env d;
          sev = (if d_riskLevel ad = TierCritical then Critical else High)
      in try_catch
           (seq [update_job (\<lambda>j. j\<lparr>dependencies := dependencies j @ [ad]\<rparr>),
                 (if d_riskLevel ad = TierHigh \<or> d_riskLevel ad = TierCritical
                  then seq [addAlert env
                              \<lparr>a_severity = sev, a_type = DependencyAlert,
                               a_title = ''Risky dependency detected: '' @ rd_name d,
                               a_description =
                                 summary_or (an_summary aiAnalysis)
                                   [Str (rd_name d), Str '' has been flagged as '',
                                    Str (tier_name (d_riskLevel ad)), Str '' risk''],
                               a_aiConfidence = an_confidence aiAnalysis\<rparr>,
                            emitAlert env
                              \<lparr>a_severity = sev, a_type = DependencyAlert,
                               a_title = ''Risky dependency: '' @ rd_name d,
                               a_description =
                                 summary_or (an_summary aiAnalysis)
                                   [Str ''Flagged as '', Str (tier_name (d_riskLevel ad)),
                                    Str '' risk''],
                               a_aiConfidence = JSUndefined\<rparr>]
                  else succeed),
                 (if t_isTyposquat (d_typosquatting ad)
                  then seq [addAlert env
                              \<lparr>a_severity = High, a_type = DependencyAlert,
                               a_title = ''Potential typosquatting: '' @ rd_name d,
                               a_description =
                                 [Str ''Package may be impersonating popular packages''],
                               a_aiConfidence = t_confidence (d_typosquatting ad)\<rparr>,
                            emitAlert env
                              \<lparr>a_severity = High, a_type = DependencyAlert,
                               a_title = ''Typosquatting detected: '' @ rd_name d,
                               a_description =
                                 [Str ''Similar to: '',
                                  Str (join_comma (t_similarPackages (d_typosquatting ad)))],
                               a_aiConfidence = JSUndefined\<rparr>]
                  else succeed),
                 emitLog env LvInfo
                   [Str ''Analyzed dependency '', Str (rd_name d), Str '' - Risk: '',
                    Str (tier_name (d_riskLevel ad))]
                   SrcAnalysis])
           (\<lambda>error. succeed))"

definition analyzeDependencies :: "env \<Rightarrow> action" where
  "analyzeDependencies env =
     try_catch
       (seq [emitLog env LvInfo
               [Str ''Found '', Num (of_nat (length (found_dependencies env))),
                Str '' dependencies to analyze'']
               SrcAnalysis,
             seq (map (processDependency env) (found_dependencies env)),
             save env In_analyzeDependencies])
       (\<lambda>error.
          seq [emitLog env LvError [Str ''Dependency analysis failed: '', Str error] SrcAnalysis,
               throw error])"

subsection \<open>Overall assessment, risk score, final report\<close>

definition text_or_undefined :: "string option \<Rightarrow> chunk" where
  "text_or_undefined x = (case x of None \<Rightarrow> Str ''undefined'' | Some s \<Rightarrow> Str s)"

text \<open>A number inside a template literal.\<close>

definition number_chunk :: "jsnum \<Rightarrow> chunk" where
  "number_chunk x =
     (case x of Fin r \<Rightarrow> Num r | NaN \<Rightarrow> Str ''NaN'' | PosInf \<Rightarrow> Str ''Infinity''
      | NegInf \<Rightarrow> Str ''-Infinity'')"

definition number_or_undefined :: "jsnum option \<Rightarrow> chunk" where
  "number_or_undefined x = (case x of None \<Rightarrow> Str ''undefined'' | Some n \<Rightarrow> number_chunk n)"

definition runAIAnalysis :: "env \<Rightarrow> action" where
  "runAIAnalysis env =
     (let assessment =
            generateOverallAssessment (ai_available env) (json_parse env) (ai_overall_reply env)
      in try_catch
           (seq [emitLog env LvInfo [Str ''Running comprehensive AI analysis...''] SrcAI,
                 update_job (\<lambda>j. j\<lparr>aiSummary := Some assessment\<rparr>),
                 save env In_runAIAnalysis,
                 emitLog env LvInfo
                   [Str ''AI assessment completed - Threat level: '',
                    text_or_undefined (an_overallThreat assessment)]
                   SrcAI])
           (\<lambda>error. emitLog env LvWarn [Str ''AI analysis failed: '', Str error] SrcAI))"

definition level_name :: "risk_level \<Rightarrow> string" where
  "level_name l =
     (case l of LevelLow \<Rightarrow> ''low'' | LevelMedium \<Rightarrow> ''medium'' | LevelHigh \<Rightarrow> ''high''
      | LevelCritical \<Rightarrow> ''critical'' | LevelUnknown \<Rightarrow> ''unknown'')"

text \<open>
  calculateRiskScore. In the \<open>try\<close> block the score and level are computed from the
  job's lists, assigned, saved and logged; the \<open>catch\<close> block logs, assigns the default
  and saves again.
\<close>

definition calculateRiskScore :: "env \<Rightarrow> action" where
  "calculateRiskScore env =
     try_catch
       (reading (\<lambda>w. computeRiskScore (commits (job w)) (dependencies (job w)) (alerts (job w)))
          (\<lambda>(score, level).
             seq [update_job (\<lambda>j. j\<lparr>riskScore := Some score, riskLevel := Some level\<rparr>),
                  save env In_calculateRiskScore,
                  emitLog env LvInfo
                    [Str ''Risk score calculated: '', number_chunk score, Str ''/100 ('',
                     Str (level_name level), Str '')'']
                    SrcAnalysis]))
       (\<lambda>error.
          seq [emitLog env LvError [Str ''Risk calculation failed: '', Str error] SrcAnalysis,
               update_job (\<lambda>j. j\<lparr>riskScore := Some (Fin 50), riskLevel := Some LevelMedium\<rparr>),
               save env In_calculateRiskScore_catch])"

text \<open>
  generateFinalAssessment. The metrics and the summary report it attaches to the job are
  computed without any call that can fail and are not modelled, but for the two counts
  its last log line prints. Writing \<open>job.repoInfo.totalCommits\<close> throws when
  \<open>repoInfo\<close> is missing.
\<close>

definition generateFinalAssessment :: "env \<Rightarrow> action" where
  "generateFinalAssessment env =
     try_catch
       (seq [reading job
               (\<lambda>j. case repoInfo j of
                  None \<Rightarrow> throw ''Cannot set properties of undefined''
                | Some r \<Rightarrow>
                    update_job (\<lambda>j. j\<lparr>repoInfo := Some (r\<lparr>r_totalCommits := length (commits j),
                      r_lastCommit := (case commits j of [] \<Rightarrow> None | c # cs \<Rightarrow> Some (c_hash c))\<rparr>)\<rparr>)),
             save env In_generateFinalAssessment,
             reading job
               (\<lambda>j. emitLog env LvInfo
                  [Str ''Final assessment completed - Risk Score: '',
                   number_or_undefined (riskScore j), Str ''/100'']
                  SrcSystem),
             reading job
               (\<lambda>j. emitLog env LvInfo
                  [Str ''Analysis Summary: '', Num (of_nat (length (alerts j))),
                   Str '' issues found, '',
                   Num (of_nat (length (filter (\<lambda>a. a_severity a = Critical) (alerts j)))),
                   Str '' critical'']
                  SrcSystem)])
       (\<lambda>error.
          emitLog env LvWarn [Str ''Final assessment generation failed: '', Str error] SrcSystem)"

subsection \<open>The background run\<close>

definition github_cleanup :: action where
  "github_cleanup = modify (\<lambda>w. w\<lparr>cleanups := cleanups w @ [jobId (job w)]\<rparr>)"

definition success_payload :: "job \<Rightarrow> done_payload" where
  "success_payload j =
     \<lparr>dn_riskScore = riskScore j,
      dn_riskLevel = riskLevel j,
      dn_totalAlerts = length (alerts j),
      dn_criticalAlerts = length (filter (\<lambda>a. a_severity a = Critical) (alerts j)),
      dn_dependencyIssues =
        length (filter (\<lambda>d. d_riskLevel d = TierHigh \<or> d_riskLevel d = TierCritical) (dependencies j)),
      dn_commitIssues = length (filter (\<lambda>c. c_riskScore c > 70) (commits j)),
      dn_alerts = alerts j,
      dn_aiSummary = aiSummary j,
      dn_error = None\<rparr>"

definition failure_payload :: "string \<Rightarrow> done_payload" where
  "failure_payload message =
     \<lparr>dn_riskScore = Some (Fin 0),
      dn_riskLevel = Some LevelUnknown,
      dn_totalAlerts = 0,
      dn_criticalAlerts = 0,
      dn_dependencyIssues = 0,
      dn_commitIssues = 0,
      dn_alerts = [],
      dn_aiSummary = None,
      dn_error = Some message\<rparr>"

text \<open>
  handleAnalysisError. Everything is inside one \<open>try\<close>; its \<open>catch\<close> prints
  "Failed to save error state" and returns.
\<close>

definition handleAnalysisError :: "env \<Rightarrow> string \<Rightarrow> action" where
  "handleAnalysisError env message =
     try_catch
       (seq [assign_status Failed,
             update_job (\<lambda>j. j\<lparr>endTime_set := True,
               buildInfo := Some \<lparr>b_success = False, b_errors = [message], b_warnings = []\<rparr>\<rparr>),
             save env In_handleAnalysisError,
             emitLog env LvError [Str ''Analysis failed: '', Str message] SrcSystem,
             emit (DoneEvent (failure_payload message)),
             github_cleanup,
             modify (\<lambda>w. w\<lparr>activeJobs := False\<rparr>)])
       (\<lambda>saveError. succeed)"

text \<open>The \<open>try\<close> block of runAnalysis.\<close>

definition runAnalysis_try :: "env \<Rightarrow> action" where
  "runAnalysis_try env =
     seq [updateJobStatus env Cloning 5,
          emitLog env LvInfo [Str ''Starting repository analysis...''] SrcSystem,
          cloneRepository env,
          updateJobStatus env Cloning 15,
          emitLog env LvInfo [Str ''Analyzing commit history...''] SrcAnalysis,
          analyzeCommits env,
          updateJobStatus env Analyzing 40,
          emitLog env LvInfo [Str ''Analyzing dependencies...''] SrcAnalysis,
          analyzeDependencies env,
          updateJobStatus env Analyzing 60,
          emitLog env LvInfo [Str ''Running AI-powered threat analysis...''] SrcAI,
          runAIAnalysis env,
          updateJobStatus env Analyzing 80,
          emitLog env LvInfo [Str ''Calculating risk score...''] SrcAnalysis,
          calculateRiskScore env,
          updateJobStatus env Analyzing 90,
          emitLog env LvInfo [Str ''Generating final assessment...''] SrcAI,
          generateFinalAssessment env,
          assign_status Completed,
          update_job (\<lambda>j. j\<lparr>endTime_set := True\<rparr>),
          assign_progress 100,
          update_job (\<lambda>j. j\<lparr>buildInfo :=
            Some \<lparr>b_success = True, b_errors = [], b_warnings = []\<rparr>\<rparr>),
          save env In_runAnalysis,
          emitLog env LvInfo [Str ''Analysis completed in '', Elapsed, Str ''s''] SrcSystem,
          reading job (\<lambda>j. emit (DoneEvent (success_payload j))),
          github_cleanup,
          modify (\<lambda>w. w\<lparr>activeJobs := False\<rparr>)]"

definition runAnalysis :: "env \<Rightarrow> action" where
  "runAnalysis env = try_catch (runAnalysis_try env) (handleAnalysisError env)"

text \<open>
  startAnalysis creates and saves the job, registers it and starts the run, whose
  rejection the \<open>.catch\<close> callback would hand to handleAnalysisError. The state it
  yields here is the one at the end of the run.
\<close>

definition created :: "env \<Rightarrow> string \<Rightarrow> string \<Rightarrow> project_type \<Rightarrow> world" where
  "created env jid url ptype =
     \<lparr>job = new_job jid url ptype, activeJobs = False, events = [], cleanups = [], saves = 0,
      sandbox = docker_state env, history = [(Pending, 0)]\<rparr>"

definition startAnalysis :: "env \<Rightarrow> string \<Rightarrow> string \<Rightarrow> project_type \<Rightarrow> (string + unit) \<times> world" where
  "startAnalysis env jid url ptype =
     try_catch
       (seq [save env In_startAnalysis,
             modify (\<lambda>w. w\<lparr>activeJobs := True\<rparr>),
             try_catch (runAnalysis env) (handleAnalysisError env)])
       (\<lambda>error. throw error)
       (created env jid url ptype)"

text \<open>The events of kind \<open>done\<close> among the emitted ones.\<close>

fun is_done :: "event \<Rightarrow> bool" where
  "is_done (DoneEvent d) = True"
| "is_done _ = False"

definition done_events :: "world \<Rightarrow> event list" where
  "done_events w = filter is_done (events w)"

definition terminal :: "status \<Rightarrow> bool" where
  "terminal s = (s = Completed \<or> s = Failed)"

section \<open>Notions used to state and prove the results\<close>

text \<open>An action leaves an observation \<open>g\<close> of the state as it is, whatever its outcome.\<close>

definition preserves :: "action \<Rightarrow> (world \<Rightarrow> 'a) \<Rightarrow> bool" where
  "preserves a g = (\<forall>w. g (snd (a w)) = g w)"

text \<open>
  Pre- and postconditions: from a state satisfying \<open>P\<close> the action ends in a state
  satisfying \<open>Q\<close> when it returns and \<open>E\<close> when it throws.
\<close>

definition hoare :: "(world \<Rightarrow> bool) \<Rightarrow> action \<Rightarrow> (world \<Rightarrow> bool) \<Rightarrow> (world \<Rightarrow> bool) \<Rightarrow> bool" where
  "hoare P a Q E = (\<forall>w. P w \<longrightarrow> (case a w of (Inl m, w') \<Rightarrow> E w' | (Inr u, w') \<Rightarrow> Q w'))"

definition on :: "(world \<Rightarrow> 'a) \<Rightarrow> ('a \<Rightarrow> bool) \<Rightarrow> world \<Rightarrow> bool" where
  "on g R w = R (g w)"

text \<open>The observations: status and progress with their history; what the run does to
  its surroundings; the classified commits.\<close>

definition sp :: "world \<Rightarrow> (status \<times> int) list \<times> status \<times> int" where
  "sp w = (history w, status (job w), progress (job w))"

definition obs :: "world \<Rightarrow> event list \<times> string list \<times> bool \<times> docker_service \<times> string" where
  "obs w = (done_events w, cleanups w, activeJobs w, sandbox w, jobId (job w))"

definition keep ::
  "world \<Rightarrow> ((status \<times> int) list \<times> status \<times> int) \<times>
     (event list \<times> string list \<times> bool \<times> docker_service \<times> string) \<times> commit list" where
  "keep w = (sp w, obs w, commits (job w))"

definition oc ::
  "world \<Rightarrow> (event list \<times> string list \<times> bool \<times> docker_service \<times> string) \<times> commit list" where
  "oc w = (obs w, commits (job w))"

text \<open>
  What a finished exit path adds to the surroundings: the \<open>done\<close> event, the removal of
  the workspace, the removal of the job from \<open>activeJobs\<close>.
\<close>

definition done_obs ::
  "event list \<times> string list \<times> bool \<times> docker_service \<times> string \<Rightarrow> done_payload \<Rightarrow>
     event list \<times> string list \<times> bool \<times> docker_service \<times> string" where
  "done_obs x d =
     (case x of (evs, cl, active, sb, jid) \<Rightarrow> (evs @ [DoneEvent d], cl @ [jid], False, sb, jid))"

text \<open>
  The moves of the status field: it stays, or follows pending, cloning, analyzing,
  completed, or goes to failed. \<open>spec_move\<close> is the relation as the specification has
  it, where failed is entered from a non-terminal state only.
\<close>

definition spec_move :: "status \<Rightarrow> status \<Rightarrow> bool" where
  "spec_move s t =
     (s = t \<or> (s = Pending \<and> t = Cloning) \<or> (s = Cloning \<and> t = Analyzing) \<or>
      (s = Analyzing \<and> t = Completed) \<or> (\<not> terminal s \<and> t = Failed))"

definition code_move :: "status \<Rightarrow> status \<Rightarrow> bool" where
  "code_move s t = (spec_move s t \<or> (s = Completed \<and> t = Failed))"

definition step_ok :: "status \<times> int \<Rightarrow> status \<times> int \<Rightarrow> bool" where
  "step_ok x y = (code_move (fst x) (fst y) \<and> snd x \<le> snd y)"

text \<open>
  The history is a chain of allowed steps that starts with a pending job at progress 0 and
  ends in the current status and progress.
\<close>

definition chain :: "(status \<times> int) list \<times> status \<times> int \<Rightarrow> bool" where
  "chain x =
     (case x of (h, s, p) \<Rightarrow>
        h \<noteq> [] \<and> hd h = (Pending, 0) \<and> last h = (s, p) \<and> successively step_ok h)"



definition stage :: "status set \<Rightarrow> int \<Rightarrow> (status \<times> int) list \<times> status \<times> int \<Rightarrow> bool" where
  "stage S q x = (case x of (h, s, p) \<Rightarrow> chain x \<and> s \<in> S \<and> p \<le> q)"

section \<open>Sample inputs\<close>

definition sample_repo :: repo_info where
  "sample_repo = \<lparr>r_fullName = ''octo/demo'', r_localPath = ''./workspace/job_1'',
     r_totalCommits = 0, r_lastCommit = None\<rparr>"

definition sample_commit :: commit where
  "sample_commit = \<lparr>c_hash = ''9f2c41d07ab3e655'', c_author = ''dev'', c_message = ''update'',
     c_riskScore = 0, c_aiAnalysis = None\<rparr>"

definition sample_dependency :: raw_dependency where
  "sample_dependency = \<lparr>rd_name = ''left-pad'', rd_version = ''1.3.0''\<rparr>"

text \<open>
  The model server is unreachable, so the adapter is not available; the repository has
  one commit and one dependency; every save succeeds; a container is registered for the
  job.
\<close>

definition oracle_down :: env where
  "oracle_down =
     \<lparr>save_error = (\<lambda>site n. None),
      clone_result = Inr sample_repo,
      commits_result = Inr [sample_commit],
      found_dependencies = [sample_dependency],
      ai_available = False,
      ai_commit_reply = (\<lambda>c. HttpFailed),
      ai_dependency_reply = (\<lambda>d. HttpFailed),
      ai_overall_reply = HttpFailed,
      json_parse = (\<lambda>s. None),
      parse_float = parseFloat_decimal,
      find_one = FindSome,
      docker_state = one_container\<rparr>"

text \<open>The database accepts the new job and rejects every later save.\<close>

definition database_down :: env where
  "database_down = oracle_down\<lparr>save_error :=
     (\<lambda>site n. if site = In_startAnalysis then None else Some ''database unreachable'')\<rparr>"

text \<open>An empty repository; only the save of the completed job is rejected.\<close>

definition completion_not_saved :: env where
  "completion_not_saved = oracle_down\<lparr>commits_result := Inr [], found_dependencies := [],
     save_error := (\<lambda>site n. if site = In_runAnalysis then Some ''database unreachable'' else None)\<rparr>"

text \<open>An empty repository; only the two saves of calculateRiskScore are rejected.\<close>

definition score_not_saved :: env where
  "score_not_saved = oracle_down\<lparr>commits_result := Inr [], found_dependencies := [],
     save_error := (\<lambda>site n.
       if site = In_calculateRiskScore \<or> site = In_calculateRiskScore_catch
       then Some ''database unreachable'' else None)\<rparr>"

text \<open>
  The oracle answers every commit with risk score 95 and confidence "85%"; the
  repository has one commit and no dependency; every save succeeds.
\<close>

definition risky_reply :: string where
  \<open>risky_reply =
     ''Here is my verdict: {"riskScore": 95, "confidence": "85%", "summary": "backdoor"}''\<close>

definition risky_commit :: env where
  \<open>risky_commit = oracle_down\<lparr>found_dependencies := [],
     ai_available := True,
     ai_commit_reply := (\<lambda>c. HttpOk (Some risky_reply)),
     json_parse := (\<lambda>s.
        if s = ''{"riskScore": 95, "confidence": "85%", "summary": "backdoor"}''
        then Some (no_fields\<lparr>an_riskScore := Some 95, an_confidence := JSString ''85%'',
          an_summary := Some ''backdoor''\<rparr>)
        else None)\<rparr>\<close>

chapter \<open>Results\<close>

section \<open>Confidence sanitization\<close>

lemma sanitize_number_unit: "v \<noteq> NaN \<Longrightarrow> in_unit_interval (sanitize_number v)"
  by (cases v) (auto simp: sanitize_number_def)

lemma sanitize_percent_unit:
  "in_unit_interval (or_zero (math_min (math_max (div100 x) (Fin 0)) (Fin 1)))"
  by (cases x) auto

text \<open>
  C9. For a confidence that is null, undefined, a number (not \<open>NaN\<close>: in [0,1], above
  1, and also below 0 or infinite), a string ending in \<open>%\<close>, or a string that
  \<open>parseFloat\<close> reads as a number, \<open>sanitizeConfidence\<close> returns a number of the
  interval [0,1]. This is the value analyzeCommits and analyzeDependencies store as the
  verdict's confidence.
\<close>

theorem sanitizeConfidence_in_unit_interval:
  assumes "v \<noteq> JSNumber NaN"
    and "\<And>s. v = JSString s \<Longrightarrow> endsWith_percent s \<or> pf s \<noteq> NaN"
  shows "in_unit_interval (sanitizeConfidence pf v)"
proof (cases v)
  case (JSNumber n)
  with assms(1) show ?thesis by (simp add: sanitize_number_unit)
next
  case (JSString s)
  with assms(2) show ?thesis
    by (auto simp: sanitize_number_unit sanitize_percent_unit)
qed simp_all

theorem sanitizeConfidence_in_unit_interval_witness:
  "JSString ''85%'' \<noteq> JSNumber NaN \<and> endsWith_percent ''85%'' \<and>
   in_unit_interval (sanitizeConfidence parseFloat_decimal (JSString ''85%''))"
  using sanitizeConfidence_in_unit_interval [of "JSString ''85%''" parseFloat_decimal]
  by (simp add: endsWith_percent_def)

section \<open>Risk scoring\<close>

lemma foldl_js_add_map:
  "foldl (\<lambda>s x. js_add s (Fin (f x))) a xs = foldl js_add a (map Fin (map f xs))"
  by (induction xs arbitrary: a) simp_all

lemma tier_value_eq: "tier_value t = riskLevelScores t"
  by (cases t) (simp_all add: tier_value_def riskLevelScores_def)

lemma severity_value_eq: "severity_value s = severityScores s"
  by (cases s) (simp_all add: severity_value_def severityScores_def)

lemma weight_literals:
  "to_double (2 / 5) = weight_commits"
  "to_double (7 / 20) = weight_dependencies"
  "to_double (1 / 4) = weight_alerts"
  by (simp_all add: weight_commits_def weight_dependencies_def weight_alerts_def)

text \<open>Whatever factors are present, the sum of their weights is positive.\<close>

lemma factors_positive:
  "js_gt (js_add (Fin 0) weight_commits) (Fin 0)"
  "js_gt (js_add (Fin 0) weight_dependencies) (Fin 0)"
  "js_gt (js_add (Fin 0) weight_alerts) (Fin 0)"
  "js_gt (js_add (js_add (Fin 0) weight_commits) weight_dependencies) (Fin 0)"
  "js_gt (js_add (js_add (Fin 0) weight_commits) weight_alerts) (Fin 0)"
  "js_gt (js_add (js_add (Fin 0) weight_dependencies) weight_alerts) (Fin 0)"
  "js_gt (js_add (js_add (js_add (Fin 0) weight_commits) weight_dependencies) weight_alerts) (Fin 0)"
  by code_simp+

lemma computeRiskScore_score: "fst (computeRiskScore cs ds als) = spec_score cs ds als"
proof -
  consider "cs = []" "ds = []" "als = []" | "cs = []" "ds = []" "als \<noteq> []"
    | "cs = []" "ds \<noteq> []" "als = []" | "cs = []" "ds \<noteq> []" "als \<noteq> []"
    | "cs \<noteq> []" "ds = []" "als = []" | "cs \<noteq> []" "ds = []" "als \<noteq> []"
    | "cs \<noteq> []" "ds \<noteq> []" "als = []" | "cs \<noteq> []" "ds \<noteq> []" "als \<noteq> []"
    by blast
  then show ?thesis
    by cases
      (simp_all add: computeRiskScore_def spec_score_def spec_factors_def Let_def
        foldl_js_add_map mean_def double_sum_def tier_value_eq severity_value_eq
        weight_literals factors_positive comp_def del: js_add.simps)
qed

text \<open>
  The comparisons of the code are those of the bands: \<open>x \<ge> 75\<close> holds of a
  finite \<open>x\<close> exactly when it holds of \<open>\<lfloor>x\<rfloor>\<close>.
\<close>

lemma level_thresholds:
  "(if js_ge s (Fin 75) then LevelCritical else if js_ge s (Fin 50) then LevelHigh
    else if js_ge s (Fin 25) then LevelMedium else LevelLow) = spec_level_of s"
proof (cases s)
  case (Fin x)
  have "(75 \<le> x) = (75 \<le> \<lfloor>x\<rfloor>)" "(50 \<le> x) = (50 \<le> \<lfloor>x\<rfloor>)" "(25 \<le> x) = (25 \<le> \<lfloor>x\<rfloor>)"
    by (simp_all add: le_floor_iff)
  with Fin show ?thesis
    by (simp add: js_ge_def spec_level_of_def spec_level_def not_less)
qed (simp_all add: js_ge_def spec_level_of_def)

lemma computeRiskScore_level:
  "snd (computeRiskScore cs ds als) = spec_level_of (fst (computeRiskScore cs ds als))"
  by (simp add: computeRiskScore_def Let_def level_thresholds split: prod.splits)

lemma math_round_integer: "case math_round q of Fin x \<Rightarrow> x \<in> \<int> | _ \<Rightarrow> True"
  by (cases q) simp_all

lemma spec_score_integer: "case spec_score cs ds als of Fin x \<Rightarrow> x \<in> \<int> | _ \<Rightarrow> True"
  using math_round_integer by (simp add: spec_score_def Let_def)

text \<open>
  C1, as stated, at the specification's worked example: one commit with risk score 80,
  no dependency and one critical alert do not give (82, critical). The weighted mean is
  (80 * 0.40 + 100 * 0.25) / 0.65 = 57 / 0.65 = 87.69..., which rounds to 88.
\<close>

theorem calculateRiskScore_example_not_82:
  "computeRiskScore [commit80] [] [critical_alert] \<noteq> (Fin 82, LevelCritical)"
  by code_simp

text \<open>
  C1, amended. For every list of commits, dependencies and alerts the score computed by
  calculateRiskScore is the weighted mean of the factors present (mean commit risk score
  with weight 0.40, mean dependency tier value with weight 0.35, mean alert severity
  value with weight 0.25), renormalized over the weights present, every sum, product
  and quotient being that of double arithmetic, rounded by \<open>Math.round\<close>; it is 0
  when no factor is present. A finite score is an integer, and the level is low below
  25, medium for 25 to 49, high for 50 to 74 and critical from 75 on. One commit with
  risk score 80 and one critical alert give (88, critical); empty inputs give (0, low).
  The rounding of the operations shows where the exact weighted mean is half an integer:
  two commits with risk scores 0 and 43 (mean 21.5) give 21, since 21.5 * 0.4 / 0.4 is
  21.499999999999996 in doubles, and one commit with risk score 57 with a low and a
  medium alert (weighted mean 49.5) give (49, medium).
\<close>

theorem calculateRiskScore_weighted_mean:
  "computeRiskScore cs ds als = (spec_score cs ds als, spec_level_of (spec_score cs ds als)) \<and>
   (case spec_score cs ds als of Fin x \<Rightarrow> x \<in> \<int> | _ \<Rightarrow> True) \<and>
   computeRiskScore [commit80] [] [critical_alert] = (Fin 88, LevelCritical) \<and>
   computeRiskScore [] [] [] = (Fin 0, LevelLow) \<and>
   computeRiskScore [commit_scored 0, commit_scored 43] [] [] = (Fin 21, LevelLow) \<and>
   computeRiskScore [commit_scored 57] [] [alert_of Low, alert_of Medium] = (Fin 49, LevelMedium)"
proof -
  have "computeRiskScore cs ds als = (spec_score cs ds als, spec_level_of (spec_score cs ds als))"
    using computeRiskScore_score [of cs ds als] computeRiskScore_level [of cs ds als]
    by (metis prod.collapse)
  moreover have "computeRiskScore [commit80] [] [critical_alert] = (Fin 88, LevelCritical)"
    by code_simp
  moreover have "computeRiskScore [] [] [] = (Fin 0, LevelLow)"
    by code_simp
  moreover have "computeRiskScore [commit_scored 0, commit_scored 43] [] [] = (Fin 21, LevelLow)"
    by code_simp
  moreover have
    "computeRiskScore [commit_scored 57] [] [alert_of Low, alert_of Medium] = (Fin 49, LevelMedium)"
    by code_simp
  ultimately show ?thesis
    using spec_score_integer [of cs ds als] by simp
qed

section \<open>Sandbox release\<close>

text \<open>
  C7. Release is idempotent. stopContainer never reports an error to its caller. When
  the container answers \<open>stop\<close> by stopping or by status 304 (already stopped), the
  release succeeds: the job's entry leaves the registry and no error is logged. A second
  release of the same job is then a no-op: it reports no error, sends no \<open>stop\<close>,
  leaves the registry as it is and only prints the warning that there is no container.
\<close>

theorem stopContainer_idempotent:
  assumes "r1 = StopOk \<or> r1 = StopRejected (Some 304)"
    and "s1 = snd (stopContainer r1 jid s)"
  shows "fst (stopContainer r1 jid s) = Inr () \<and>
         activeContainers s1 jid = None \<and>
         filter (\<lambda>l. fst l = LvError) (console s1) = filter (\<lambda>l. fst l = LvError) (console s) \<and>
         stopContainer r2 jid s1 =
           (Inr (), s1\<lparr>console := console s1 @ [(LvWarn, ''Container not found for cleanup'')]\<rparr>)"
proof -
  have gone: "activeContainers s1 jid = None"
    using assms
    by (auto simp: stopContainer_def stop_tolerating_304_def console_log_def Let_def
        split: option.splits)
  have ok: "fst (stopContainer r1 jid s) = Inr ()"
    by (auto simp: stopContainer_def Let_def split: option.splits prod.splits sum.splits)
  have quiet: "filter (\<lambda>l. fst l = LvError) (console s1) = filter (\<lambda>l. fst l = LvError) (console s)"
    using assms
    by (auto simp: stopContainer_def stop_tolerating_304_def console_log_def Let_def
        split: option.splits)
  have again: "stopContainer r2 jid s1 =
      (Inr (), s1\<lparr>console := console s1 @ [(LvWarn, ''Container not found for cleanup'')]\<rparr>)"
    using gone by (simp add: stopContainer_def console_log_def)
  from ok gone quiet again show ?thesis by simp
qed

theorem stopContainer_idempotent_witness:
  "activeContainers (snd (stopContainer (StopRejected (Some 304)) ''job_1'' one_container)) ''job_1''
     = None \<and>
   fst (stopContainer StopOk ''job_1''
     (snd (stopContainer (StopRejected (Some 304)) ''job_1'' one_container))) = Inr () \<and>
   stop_requests (snd (stopContainer StopOk ''job_1''
     (snd (stopContainer (StopRejected (Some 304)) ''job_1'' one_container)))) = [''c0ffee'']"
  using stopContainer_idempotent [of "StopRejected (Some 304)"
      "snd (stopContainer (StopRejected (Some 304)) ''job_1'' one_container)" "''job_1''"
      one_container StopOk]
  by (simp add: stopContainer_def stop_tolerating_304_def console_log_def one_container_def)

section \<open>Frames and proof rules\<close>

lemma preservesI: "(\<And>w. g (snd (a w)) = g w) \<Longrightarrow> preserves a g"
  by (simp add: preserves_def)

lemma preservesD: "preserves a g \<Longrightarrow> g (snd (a w)) = g w"
  by (simp add: preserves_def)

lemma preserves_succeed: "preserves succeed g"
  by (simp add: preserves_def succeed_def)

lemma preserves_throw: "preserves (throw m) g"
  by (simp add: preserves_def throw_def)

lemma preserves_modify: "(\<And>w. g (f w) = g w) \<Longrightarrow> preserves (modify f) g"
  by (simp add: preserves_def modify_def)

lemma preserves_seq: "(\<And>a. a \<in> set as \<Longrightarrow> preserves a g) \<Longrightarrow> preserves (seq as) g"
proof (induction as)
  case Nil
  show ?case by (simp add: preserves_def)
next
  case (Cons a as)
  have a: "preserves a g" and r: "preserves (seq as) g"
    using Cons by simp_all
  show ?case
    unfolding preserves_def
  proof
    fix w
    show "g (snd (seq (a # as) w)) = g w"
      using preservesD [OF a, of w] preservesD [OF r, of "snd (a w)"]
      by (cases "a w") (auto split: sum.splits)
  qed
qed

lemma preserves_try_catch:
  "preserves b g \<Longrightarrow> (\<And>m. preserves (h m) g) \<Longrightarrow> preserves (try_catch b h) g"
  unfolding preserves_def try_catch_def
  by (auto split: prod.splits sum.splits) (metis snd_conv)+

lemma preserves_reading: "(\<And>x. preserves (k x) g) \<Longrightarrow> preserves (reading f k) g"
  by (simp add: preserves_def reading_def)

lemma preserves_if: "preserves a g \<Longrightarrow> preserves b g \<Longrightarrow> preserves (if c then a else b) g"
  by simp

lemma preserves_proj: "preserves a g \<Longrightarrow> preserves a (\<lambda>w. f (g w))"
  by (simp add: preserves_def)

lemmas preserves_intros = preserves_succeed preserves_throw preserves_seq preserves_try_catch
  preserves_reading preserves_if

lemma keep_save: "preserves (save env site) keep"
  by (auto simp: preserves_def save_def keep_def sp_def obs_def done_events_def split: option.splits)

lemma keep_emit: "\<not> is_done ev \<Longrightarrow> preserves (emit ev) keep"
  by (auto simp: preserves_def emit_def modify_def keep_def sp_def obs_def done_events_def)

lemma keep_addLog: "preserves (addLog env lv msg src) keep"
  unfolding addLog_def update_job_def
  by (intro preserves_seq preserves_modify) (auto simp: keep_save keep_def sp_def obs_def done_events_def intro!: preserves_modify)


lemma keep_update_job:
  "(\<And>j. status (f j) = status j \<and> progress (f j) = progress j \<and> jobId (f j) = jobId j \<and>
      commits (f j) = commits j) \<Longrightarrow> preserves (update_job f) keep"
  by (simp add: preserves_def update_job_def modify_def keep_def sp_def obs_def done_events_def)


lemmas keep_basic = keep_save keep_emit keep_addLog

lemma keep_addAlert: "preserves (addAlert env a) keep"
  unfolding addAlert_def
  by (auto intro!: preserves_intros keep_update_job simp: keep_save)

lemma keep_on_stored_copy: "preserves (on_stored_copy env site) keep"
  by (cases "find_one env") (simp_all add: on_stored_copy_def preserves_succeed preserves_throw keep_save)

lemma keep_emitLog: "preserves (emitLog env lv msg src) keep"
  unfolding emitLog_def
  by (auto intro!: preserves_intros simp: keep_addLog keep_on_stored_copy keep_emit)

lemma keep_emitAlert: "preserves (emitAlert env a) keep"
  unfolding emitAlert_def
  by (auto intro!: preserves_intros simp: keep_addAlert keep_on_stored_copy keep_emit)

lemma keep_cloneRepository: "preserves (cloneRepository env) keep"
  unfolding cloneRepository_def
  by (auto intro!: preserves_intros keep_update_job simp: keep_emitLog keep_save split: sum.splits)

lemma keep_processDependency: "preserves (processDependency env d) keep"
  unfolding processDependency_def Let_def
  by (auto intro!: preserves_intros keep_update_job simp: keep_emitLog keep_emitAlert keep_addAlert)

lemma keep_analyzeDependencies: "preserves (analyzeDependencies env) keep"
  unfolding analyzeDependencies_def
  by (auto intro!: preserves_intros simp: keep_emitLog keep_save keep_processDependency)

lemma keep_runAIAnalysis: "preserves (runAIAnalysis env) keep"
  unfolding runAIAnalysis_def Let_def
  by (auto intro!: preserves_intros keep_update_job simp: keep_emitLog keep_save)

lemma keep_calculateRiskScore: "preserves (calculateRiskScore env) keep"
  unfolding calculateRiskScore_def
  by (auto intro!: preserves_intros keep_update_job simp: keep_emitLog keep_save split: prod.splits)

lemma keep_generateFinalAssessment: "preserves (generateFinalAssessment env) keep"
  unfolding generateFinalAssessment_def
  by (auto intro!: preserves_intros keep_update_job simp: keep_emitLog keep_save split: option.splits)


lemma keep_sp: "preserves a keep \<Longrightarrow> preserves a sp"
  by (simp add: preserves_def keep_def)

lemma keep_obs: "preserves a keep \<Longrightarrow> preserves a obs"
  by (simp add: preserves_def keep_def)

lemma keep_commits: "preserves a keep \<Longrightarrow> preserves a (\<lambda>w. commits (job w))"
  by (simp add: preserves_def keep_def)

lemmas keep_all = keep_save keep_addLog keep_addAlert keep_on_stored_copy keep_emitLog
  keep_emitAlert keep_cloneRepository keep_processDependency keep_analyzeDependencies
  keep_runAIAnalysis keep_calculateRiskScore keep_generateFinalAssessment

lemmas sp_frame = keep_all [THEN keep_sp]
lemmas obs_frame = keep_all [THEN keep_obs]
lemmas commits_frame = keep_all [THEN keep_commits]

lemma sp_processCommit: "preserves (processCommit env c) sp"
  unfolding processCommit_def update_job_def
  by (auto intro!: preserves_intros preserves_modify simp: sp_frame sp_def)

lemma obs_processCommit: "preserves (processCommit env c) obs"
  unfolding processCommit_def update_job_def
  by (auto intro!: preserves_intros preserves_modify simp: obs_frame obs_def done_events_def)

lemma obs_assign_status: "preserves (assign_status s) obs"
  by (simp add: preserves_def assign_status_def modify_def obs_def done_events_def)

lemma obs_assign_progress: "preserves (assign_progress s) obs"
  by (simp add: preserves_def assign_progress_def modify_def obs_def done_events_def)

lemma obs_emit: "\<not> is_done ev \<Longrightarrow> preserves (emit ev) obs"
  by (simp add: preserves_def emit_def modify_def obs_def done_events_def)

lemma obs_updateJobStatus: "preserves (updateJobStatus env st p) obs"
  unfolding updateJobStatus_def
  by (auto intro!: preserves_intros simp: obs_frame obs_assign_status obs_assign_progress obs_emit)


declare batches.simps [simp del]

lemma hoareD: "hoare P a Q E \<Longrightarrow> P w \<Longrightarrow> (case a w of (Inl m, w') \<Rightarrow> E w' | (Inr u, w') \<Rightarrow> Q w')"
  by (simp add: hoare_def)

lemma hoare_seq_nil: "hoare P (seq []) P E"
  by (simp add: hoare_def)

lemma hoare_seq_cons:
  assumes "hoare P a R E" and "hoare R (seq as) Q E"
  shows "hoare P (seq (a # as)) Q E"
  unfolding hoare_def
proof (intro allI impI)
  fix w assume "P w"
  from hoareD [OF assms(1) this] hoareD [OF assms(2), of "snd (a w)"]
  show "case seq (a # as) w of (Inl m, w') \<Rightarrow> E w' | (Inr u, w') \<Rightarrow> Q w'"
    by (cases "a w") (auto split: sum.splits)
qed

lemma hoare_try_catch:
  assumes "hoare P b Q E'" and "\<And>m. hoare E' (h m) Q E"
  shows "hoare P (try_catch b h) Q E"
  unfolding hoare_def
proof (intro allI impI)
  fix w assume "P w"
  show "case try_catch b h w of (Inl m, w') \<Rightarrow> E w' | (Inr u, w') \<Rightarrow> Q w'"
  proof (cases "b w")
    case (Pair r w')
    show ?thesis
    proof (cases r)
      case (Inl m)
      with Pair hoareD [OF assms(1) \<open>P w\<close>] have "E' w'" by simp
      from hoareD [OF assms(2) this, of m] Pair Inl show ?thesis
        by (simp add: try_catch_def)
    next
      case (Inr u)
      with Pair hoareD [OF assms(1) \<open>P w\<close>] show ?thesis
        by (simp add: try_catch_def)
    qed
  qed
qed

lemma hoare_weaken:
  assumes "hoare P' a Q' E'" and "\<And>w. P w \<Longrightarrow> P' w" and "\<And>w. Q' w \<Longrightarrow> Q w"
    and "\<And>w. E' w \<Longrightarrow> E w"
  shows "hoare P a Q E"
  unfolding hoare_def
proof (intro allI impI)
  fix w assume "P w"
  then have "P' w" by (rule assms(2))
  from hoareD [OF assms(1) this] assms(3,4)
  show "case a w of (Inl m, w') \<Rightarrow> E w' | (Inr u, w') \<Rightarrow> Q w'"
    by (auto split: prod.splits sum.splits)
qed

lemma hoare_frame:
  assumes "preserves a g" and "\<And>x. R x \<Longrightarrow> E x"
  shows "hoare (on g R) a (on g R) (on g E)"
  unfolding hoare_def on_def
proof (intro allI impI)
  fix w assume "R (g w)"
  with preservesD [OF assms(1), of w] assms(2)
  show "case a w of (Inl m, w') \<Rightarrow> E (g w') | (Inr u, w') \<Rightarrow> R (g w')"
    by (cases "a w") (auto split: sum.splits)
qed

lemma hoare_reading: "(\<And>x. hoare P (k x) Q E) \<Longrightarrow> hoare P (reading f k) Q E"
  by (simp add: hoare_def reading_def)

lemma batches_unfold:
  "i < length cs \<Longrightarrow>
   batches env cs i =
     seq [seq [seq (map (processCommit env) (take 5 (drop i cs))),
               updateJobStatus env Analyzing (15 + js_round (of_nat i / of_nat (length cs) * 25))],
          batches env cs (i + 5)]"
  by (rule ext, subst batches.simps) (auto split: prod.splits sum.splits)

lemma batches_exit: "\<not> i < length cs \<Longrightarrow> batches env cs i = seq []"
  by (rule ext, subst batches.simps) simp

lemma batches_rule:
  assumes step: "\<And>k. k < length cs \<Longrightarrow>
      hoare (I k)
        (seq [seq (map (processCommit env) (take 5 (drop k cs))),
              updateJobStatus env Analyzing (15 + js_round (of_nat k / of_nat (length cs) * 25))])
        (I (k + 5)) E"
    and exit: "\<And>k w. length cs \<le> k \<Longrightarrow> I k w \<Longrightarrow> Q w"
  shows "hoare (I i) (batches env cs i) Q E"
proof (induction "length cs - i" arbitrary: i rule: less_induct)
  case less
  show ?case
  proof (cases "i < length cs")
    case True
    then have rec: "hoare (I (i + 5)) (batches env cs (i + 5)) Q E"
      using less [of "i + 5"] by simp
    have "hoare (I (i + 5)) (seq [batches env cs (i + 5)]) Q E"
      by (rule hoare_seq_cons [OF rec hoare_seq_nil])
    then show ?thesis
      unfolding batches_unfold [OF True] by (rule hoare_seq_cons [OF step [OF True]])
  next
    case False
    then show ?thesis
      using exit [of i] by (auto simp: batches_exit hoare_def)
  qed
qed

section \<open>Status and progress along a run\<close>

lemma stage_imp_chain: "stage S q x \<Longrightarrow> chain x"
  by (auto simp: stage_def split: prod.splits)

lemma stage_weaken: "stage S q x \<Longrightarrow> S \<subseteq> S' \<Longrightarrow> q \<le> q' \<Longrightarrow> stage S' q' x"
  by (auto simp: stage_def split: prod.splits)

lemma code_move_refl: "code_move s s"
  by (simp add: code_move_def spec_move_def)

lemma hoare_seq_frame:
  assumes "preserves a g" and "\<And>x. R x \<Longrightarrow> E x" and "hoare (on g R) (seq as) Q (on g E)"
  shows "hoare (on g R) (seq (a # as)) Q (on g E)"
  by (rule hoare_seq_cons [OF hoare_frame [OF assms(1,2)] assms(3)])

lemma assign_status_stage:
  assumes "\<And>s. s \<in> S \<Longrightarrow> code_move s st"
  shows "hoare (on sp (stage S q)) (assign_status st) (on sp (stage {st} q)) (on sp chain)"
  using assms
  by (auto simp: hoare_def on_def sp_def stage_def chain_def assign_status_def modify_def
      successively_append_iff step_ok_def)

lemma assign_progress_stage:
  assumes "q \<le> p"
  shows "hoare (on sp (stage S q)) (assign_progress p) (on sp (stage S p)) (on sp chain)"
  using assms
  by (auto simp: hoare_def on_def sp_def stage_def chain_def assign_progress_def modify_def
      successively_append_iff step_ok_def code_move_refl)

lemma sp_emit: "preserves (emit ev) sp"
  by (simp add: preserves_def emit_def modify_def sp_def)

lemma updateJobStatus_stage:
  assumes "\<And>s. s \<in> S \<Longrightarrow> code_move s st" and "q \<le> p"
  shows "hoare (on sp (stage S q)) (updateJobStatus env st p) (on sp (stage {st} p)) (on sp chain)"
  unfolding updateJobStatus_def
  apply (rule hoare_try_catch [where E' = "on sp chain"])
   apply (rule hoare_seq_cons [OF assign_status_stage [OF assms(1)]], assumption)
   apply (rule hoare_seq_cons [OF assign_progress_stage [OF assms(2)]])
   apply (rule hoare_seq_frame [OF _ stage_imp_chain], rule sp_frame, assumption)
   apply (rule hoare_seq_frame [OF _ stage_imp_chain], rule sp_frame, assumption)
   apply (rule hoare_seq_frame [OF _ stage_imp_chain], rule sp_emit, assumption)
   apply (rule hoare_seq_nil)
  apply (simp add: hoare_def throw_def)
  done


lemma js_round_mono: "x \<le> y \<Longrightarrow> js_round x \<le> js_round y"
  by (simp add: js_round_def floor_mono)

lemma js_round_fraction_le:
  assumes "k < n"
  shows "js_round (of_nat k / of_nat n * 25) \<le> 25"
proof -
  have "(of_nat k :: rat) / of_nat n < 1" using assms by simp
  then have "(of_nat k :: rat) / of_nat n * 25 + 1 / 2 < 26" by simp
  then have "\<lfloor>(of_nat k :: rat) / of_nat n * 25 + 1 / 2\<rfloor> < 26"
    by (simp add: floor_less_iff)
  then show ?thesis by (simp add: js_round_def)
qed

lemma js_round_fraction_mono:
  "js_round (of_nat k / of_nat n * 25) \<le> js_round (of_nat (k + 5) / of_nat n * 25)"
  by (rule js_round_mono) (simp add: divide_right_mono)

lemma sp_batch: "preserves (seq (map (processCommit env) cs)) sp"
  by (rule preserves_seq) (auto simp: sp_processCommit)

lemma batches_stage:
  "hoare (on sp (stage {Cloning} 15)) (batches env cs 0)
     (on sp (stage {Cloning, Analyzing} 40)) (on sp chain)"
proof -
  define pr where "pr = (\<lambda>k. 15 + js_round (of_nat k / of_nat (length cs) * 25))"
  define bound where "bound = (\<lambda>k. if k < length cs then pr k else 40)"
  define I where "I = (\<lambda>k. on sp (stage {Cloning, Analyzing} (bound k)))"
  have step: "hoare (I k)
        (seq [seq (map (processCommit env) (take 5 (drop k cs))),
              updateJobStatus env Analyzing (15 + js_round (of_nat k / of_nat (length cs) * 25))])
        (I (k + 5)) (on sp chain)" if "k < length cs" for k
  proof -
    have bk: "bound k = pr k" using that by (simp add: bound_def)
    have le: "pr k \<le> bound (k + 5)"
      using js_round_fraction_le [OF that] js_round_fraction_mono [of k "length cs"]
      by (auto simp: bound_def pr_def)
    have "hoare (on sp (stage {Cloning, Analyzing} (pr k))) (updateJobStatus env Analyzing (pr k))
        (on sp (stage {Analyzing} (pr k))) (on sp chain)"
      by (rule updateJobStatus_stage) (auto simp: code_move_def spec_move_def)
    then have upd: "hoare (on sp (stage {Cloning, Analyzing} (pr k)))
        (updateJobStatus env Analyzing (pr k)) (I (k + 5)) (on sp chain)"
      by (rule hoare_weaken) (use le in \<open>auto simp: I_def on_def intro: stage_weaken\<close>)
    have "hoare (on sp (stage {Cloning, Analyzing} (pr k)))
        (seq [seq (map (processCommit env) (take 5 (drop k cs))), updateJobStatus env Analyzing (pr k)])
        (I (k + 5)) (on sp chain)"
      by (rule hoare_seq_frame [OF sp_batch stage_imp_chain], assumption)
        (rule hoare_seq_cons [OF upd hoare_seq_nil])
    then show ?thesis
      by (simp add: I_def bk) (simp add: pr_def)
  qed
  have "hoare (I 0) (batches env cs 0) (on sp (stage {Cloning, Analyzing} 40)) (on sp chain)"
    by (rule batches_rule [where I = I, OF step]) (auto simp: I_def bound_def)
  then show ?thesis
    by (rule hoare_weaken)
      (auto simp: I_def bound_def pr_def on_def js_round_def intro: stage_weaken)
qed

lemma hoare_throw: "hoare P (throw m) Q P"
  by (simp add: hoare_def throw_def)

lemma analyzeCommits_stage:
  "hoare (on sp (stage {Cloning} 15)) (analyzeCommits env)
     (on sp (stage {Cloning, Analyzing} 40)) (on sp chain)"
  unfolding analyzeCommits_def
proof (rule hoare_try_catch [where E' = "on sp chain"])
  show "hoare (on sp (stage {Cloning} 15))
     (case commits_result env of Inl m \<Rightarrow> throw m
      | Inr cs \<Rightarrow> seq [emitLog env LvInfo
            [Str ''Found '', Num (of_nat (length cs)), Str '' commits to analyze''] SrcAnalysis,
          batches env cs 0, save env In_analyzeCommits])
     (on sp (stage {Cloning, Analyzing} 40)) (on sp chain)"
  proof (cases "commits_result env")
    case (Inl m)
    then show ?thesis
      by (auto simp: hoare_def throw_def on_def intro: stage_imp_chain)
  next
    case (Inr cs)
    show ?thesis
      unfolding Inr
      apply simp
      apply (rule hoare_seq_frame [OF _ stage_imp_chain], rule sp_frame, assumption)
      apply (rule hoare_seq_cons [OF batches_stage])
      apply (rule hoare_seq_frame [OF _ stage_imp_chain], rule sp_frame, assumption)
      apply (rule hoare_seq_nil)
      done
  qed
next
  fix m
  show "hoare (on sp chain)
     (seq [emitLog env LvError [Str ''Commit analysis failed: '', Str m] SrcAnalysis, throw m])
     (on sp (stage {Cloning, Analyzing} 40)) (on sp chain)"
    apply (rule hoare_seq_frame, rule sp_frame, assumption)
    apply (rule hoare_seq_cons [OF hoare_throw hoare_seq_nil])
    done
qed


lemma code_move_Failed: "code_move s Failed"
  by (cases s) (simp_all add: code_move_def spec_move_def terminal_def)

lemma assign_status_Failed_chain:
  "hoare (on sp chain) (assign_status Failed) (on sp chain) (on sp chain)"
  by (auto simp: hoare_def on_def sp_def chain_def assign_status_def modify_def
      successively_append_iff step_ok_def code_move_Failed)

lemma sp_update_job:
  "(\<And>j. status (f j) = status j \<and> progress (f j) = progress j) \<Longrightarrow> preserves (update_job f) sp"
  by (simp add: preserves_def update_job_def modify_def sp_def)

lemma sp_github_cleanup: "preserves github_cleanup sp"
  by (simp add: preserves_def github_cleanup_def modify_def sp_def)

lemma sp_deregister: "preserves (modify (\<lambda>w. w\<lparr>activeJobs := b\<rparr>)) sp"
  by (simp add: preserves_def modify_def sp_def)

lemma sp_emit_done: "preserves (reading job (\<lambda>j. emit (DoneEvent (success_payload j)))) sp"
  by (rule preserves_reading) (rule sp_emit)

lemmas sp_steps = sp_frame sp_emit sp_github_cleanup sp_deregister sp_emit_done

lemma handleAnalysisError_chain:
  "hoare (on sp chain) (handleAnalysisError env m) (on sp chain) (on sp chain)"
  unfolding handleAnalysisError_def
proof (rule hoare_try_catch [where E' = "on sp chain"])
  show "hoare (on sp chain) (succeed) (on sp chain) (on sp chain)" for saveError :: string
    by (simp add: hoare_def succeed_def)
next
  show "hoare (on sp chain)
     (seq [assign_status Failed,
           update_job (\<lambda>j. j\<lparr>endTime_set := True,
             buildInfo := Some \<lparr>b_success = False, b_errors = [m], b_warnings = []\<rparr>\<rparr>),
           save env In_handleAnalysisError,
           emitLog env LvError [Str ''Analysis failed: '', Str m] SrcSystem,
           emit (DoneEvent (failure_payload m)), github_cleanup,
           modify (\<lambda>w. w\<lparr>activeJobs := False\<rparr>)])
     (on sp chain) (on sp chain)"
    apply (rule hoare_seq_cons [OF assign_status_Failed_chain])
    apply (rule hoare_seq_frame, rule sp_update_job, simp, assumption)
    apply (rule hoare_seq_frame, rule sp_steps, assumption)+
    apply (rule hoare_seq_nil)
    done
qed

lemma runAnalysis_chain:
  "hoare (on sp (stage {Pending} 5)) (runAnalysis env) (on sp chain) (on sp chain)"
  unfolding runAnalysis_def runAnalysis_try_def
proof (rule hoare_try_catch [where E' = "on sp chain", OF _ handleAnalysisError_chain])
  have upd: "hoare (on sp (stage S q)) (seq (updateJobStatus env st p # as)) Q (on sp chain)"
    if "\<And>s. s \<in> S \<Longrightarrow> code_move s st" and "q \<le> p"
      and "hoare (on sp (stage {st} p)) (seq as) Q (on sp chain)" for S q st p as Q
    by (rule hoare_seq_cons [OF updateJobStatus_stage that(3)]) (use that in auto)
  have frm: "hoare (on sp (stage S q)) (seq (a # as)) Q (on sp chain)"
    if "preserves a sp" and "hoare (on sp (stage S q)) (seq as) Q (on sp chain)" for S q a as Q
    by (rule hoare_seq_frame [OF that(1) stage_imp_chain that(2)])
  have fin: "hoare (on sp (stage {Completed} 100)) (seq []) (on sp chain) (on sp chain)"
    by (rule hoare_weaken [OF hoare_seq_nil]) (auto simp: on_def intro: stage_imp_chain)
  have mv: "code_move Pending Cloning" "code_move Cloning Cloning" "code_move Cloning Analyzing"
    "code_move Analyzing Analyzing" "code_move Analyzing Completed"
    by (simp_all add: code_move_def spec_move_def)
  show "hoare (on sp (stage {Pending} 5))
     (seq [updateJobStatus env Cloning 5,
           emitLog env LvInfo [Str ''Starting repository analysis...''] SrcSystem,
           cloneRepository env,
           updateJobStatus env Cloning 15,
           emitLog env LvInfo [Str ''Analyzing commit history...''] SrcAnalysis,
           analyzeCommits env,
           updateJobStatus env Analyzing 40,
           emitLog env LvInfo [Str ''Analyzing dependencies...''] SrcAnalysis,
           analyzeDependencies env,
           updateJobStatus env Analyzing 60,
           emitLog env LvInfo [Str ''Running AI-powered threat analysis...''] SrcAI,
           runAIAnalysis env,
           updateJobStatus env Analyzing 80,
           emitLog env LvInfo [Str ''Calculating risk score...''] SrcAnalysis,
           calculateRiskScore env,
           updateJobStatus env Analyzing 90,
           emitLog env LvInfo [Str ''Generating final assessment...''] SrcAI,
           generateFinalAssessment env,
           assign_status Completed,
           update_job (\<lambda>j. j\<lparr>endTime_set := True\<rparr>),
           assign_progress 100,
           update_job (\<lambda>j. j\<lparr>buildInfo :=
             Some \<lparr>b_success = True, b_errors = [], b_warnings = []\<rparr>\<rparr>),
           save env In_runAnalysis,
           emitLog env LvInfo [Str ''Analysis completed in '', Elapsed, Str ''s''] SrcSystem,
           reading job (\<lambda>j. emit (DoneEvent (success_payload j))),
           github_cleanup,
           modify (\<lambda>w. w\<lparr>activeJobs := False\<rparr>)])
     (on sp chain) (on sp chain)"
    apply (rule upd, simp add: mv, simp)
    apply (rule frm, rule sp_steps)+
    apply (rule upd, simp add: mv, simp)
    apply (rule frm, rule sp_steps)
    apply (rule hoare_seq_cons [OF analyzeCommits_stage])
    apply (rule upd, auto simp: mv)[1]
    apply (rule frm, rule sp_steps)+
    apply (rule upd, simp add: mv, simp)
    apply (rule frm, rule sp_steps)+
    apply (rule upd, simp add: mv, simp)
    apply (rule frm, rule sp_steps)+
    apply (rule upd, simp add: mv, simp)
    apply (rule frm, rule sp_steps)+
    apply (rule hoare_seq_cons [OF assign_status_stage], simp add: mv)
    apply (rule frm, rule sp_update_job, simp)
    apply (rule hoare_seq_cons [OF assign_progress_stage], simp)
    apply (rule frm, rule sp_update_job, simp)
    apply (rule frm, rule sp_steps)+
    apply (rule fin)
    done
qed

lemma startAnalysis_chain: "chain (sp (snd (startAnalysis env jid url ptype)))"
proof -
  have init: "on sp (stage {Pending} 5) (created env jid url ptype)"
    by (simp add: on_def sp_def stage_def chain_def created_def new_job_def)
  have run: "hoare (on sp (stage {Pending} 5)) (try_catch (runAnalysis env) (handleAnalysisError env))
      (on sp chain) (on sp chain)"
    by (rule hoare_try_catch [OF runAnalysis_chain handleAnalysisError_chain])
  have "hoare (on sp (stage {Pending} 5))
      (try_catch
        (seq [save env In_startAnalysis, modify (\<lambda>w. w\<lparr>activeJobs := True\<rparr>),
              try_catch (runAnalysis env) (handleAnalysisError env)])
        (\<lambda>error. throw error))
      (on sp chain) (on sp chain)"
    apply (rule hoare_try_catch [where E' = "on sp chain"])
     apply (rule hoare_seq_frame [OF _ stage_imp_chain], rule sp_steps, assumption)+
     apply (rule hoare_seq_cons [OF run hoare_seq_nil])
    apply (rule hoare_throw)
    done
  from hoareD [OF this init] show ?thesis
    by (cases "startAnalysis env jid url ptype")
      (auto simp: startAnalysis_def on_def split: sum.splits)
qed

section \<open>Commits, events and cleanup along a run\<close>

lemma hoare_stable:
  assumes "preserves a g" and "\<And>w w'. g w' = g w \<Longrightarrow> P w \<Longrightarrow> P w'" and "\<And>w. P w \<Longrightarrow> E w"
  shows "hoare P a P E"
  unfolding hoare_def
proof (intro allI impI)
  fix w assume "P w"
  have "P (snd (a w))"
    using assms(2) [OF preservesD [OF assms(1)] \<open>P w\<close>] .
  then show "case a w of (Inl m, w') \<Rightarrow> E w' | (Inr u, w') \<Rightarrow> P w'"
    using assms(3) by (cases "a w") (auto split: sum.splits)
qed

lemma hoare_stable_total:
  assumes "preserves a g" and "\<And>w. fst (a w) = Inr ()"
    and "\<And>w w'. g w' = g w \<Longrightarrow> P w \<Longrightarrow> P w'"
  shows "hoare P a P E"
  unfolding hoare_def
proof (intro allI impI)
  fix w assume "P w"
  have "P (snd (a w))"
    using assms(3) [OF preservesD [OF assms(1)] \<open>P w\<close>] .
  then show "case a w of (Inl m, w') \<Rightarrow> E w' | (Inr u, w') \<Rightarrow> P w'"
    using assms(2) [of w] by (cases "a w") (auto split: sum.splits)
qed

lemma emitLog_returns: "fst (emitLog env lv msg src w) = Inr ()"
  by (simp add: emitLog_def try_catch_def emit_def modify_def split: prod.splits sum.splits)

lemma emitAlert_returns: "fst (emitAlert env a w) = Inr ()"
  by (simp add: emitAlert_def try_catch_def emit_def modify_def split: prod.splits sum.splits)

lemma processCommit_returns: "fst (processCommit env c w) = Inr ()"
  by (simp add: processCommit_def try_catch_def succeed_def split: prod.splits sum.splits)

lemma keep_oc: "preserves a keep \<Longrightarrow> preserves a oc"
  by (simp add: preserves_def keep_def oc_def)

lemmas oc_frame = keep_all [THEN keep_oc]


lemma snd_try_catch_succeed: "snd (try_catch b (\<lambda>e. succeed) w) = snd (b w)"
  by (cases "b w") (auto simp: try_catch_def succeed_def split: sum.splits)

lemma seq_cons_modify: "seq (modify f # as) w = seq as (f w)"
  by (simp add: modify_def)

lemma commits_processCommit:
  "commits (job (snd (processCommit env c w))) = commits (job w) @ [classified_commit env c]"
proof -
  let ?rest = "[(if c_riskScore (classified_commit env c) > 70
              then seq [addAlert env (commit_alert_stored env c),
                        emitAlert env (commit_alert_emitted env c)]
              else succeed),
             emitLog env LvInfo
               [Str ''Analyzed commit '', Str (take 8 (c_hash c)), Str '' - Risk: '',
                Num (c_riskScore (classified_commit env c))]
               SrcAnalysis]"
  let ?w1 = "w\<lparr>job := (job w)\<lparr>commits := commits (job w) @ [classified_commit env c]\<rparr>\<rparr>"
  have "preserves (seq ?rest) (\<lambda>w. commits (job w))"
    by (auto intro!: preserves_intros simp: commits_frame)
  then have "commits (job (snd (seq ?rest ?w1))) = commits (job ?w1)"
    by (rule preservesD)
  moreover have "snd (processCommit env c w) = snd (seq ?rest ?w1)"
    unfolding processCommit_def snd_try_catch_succeed update_job_def seq_cons_modify ..
  ultimately show ?thesis by simp
qed

lemma batch_effect:
  "fst (seq (map (processCommit env) cs) w) = Inr () \<and>
   commits (job (snd (seq (map (processCommit env) cs) w))) =
     commits (job w) @ map (classified_commit env) cs \<and>
   obs (snd (seq (map (processCommit env) cs) w)) = obs w"
proof (induction cs arbitrary: w)
  case Nil
  show ?case by simp
next
  case (Cons c cs)
  obtain w1 where w1: "processCommit env c w = (Inr (), w1)"
    using processCommit_returns [of env c w] by (cases "processCommit env c w") auto
  have "commits (job w1) = commits (job w) @ [classified_commit env c]" "obs w1 = obs w"
    using commits_processCommit [of env c w] preservesD [OF obs_processCommit, of env c w] w1
    by simp_all
  with Cons [of w1] w1 show ?case by simp
qed


lemma oc_assign_status: "preserves (assign_status s) oc"
  by (simp add: preserves_def assign_status_def modify_def oc_def obs_def done_events_def)

lemma oc_assign_progress: "preserves (assign_progress s) oc"
  by (simp add: preserves_def assign_progress_def modify_def oc_def obs_def done_events_def)

lemma oc_emit: "\<not> is_done ev \<Longrightarrow> preserves (emit ev) oc"
  by (simp add: preserves_def emit_def modify_def oc_def obs_def done_events_def)

lemma oc_updateJobStatus: "preserves (updateJobStatus env st p) oc"
  unfolding updateJobStatus_def
  by (auto intro!: preserves_intros simp: oc_frame oc_assign_status oc_assign_progress oc_emit)

lemmas oc_steps = oc_frame oc_updateJobStatus

lemma batches_oc:
  "hoare (\<lambda>w. obs w = x \<and> commits (job w) = c0) (batches env cs 0)
     (\<lambda>w. obs w = x \<and> commits (job w) = c0 @ map (classified_commit env) cs)
     (\<lambda>w. obs w = x)"
proof -
  let ?I = "\<lambda>k w. obs w = x \<and> commits (job w) = c0 @ map (classified_commit env) (take k cs)"
  have step: "hoare (?I k)
        (seq [seq (map (processCommit env) (take 5 (drop k cs))),
              updateJobStatus env Analyzing (15 + js_round (of_nat k / of_nat (length cs) * 25))])
        (?I (k + 5)) (\<lambda>w. obs w = x)" for k
  proof (rule hoare_seq_cons)
    show "hoare (?I k) (seq (map (processCommit env) (take 5 (drop k cs)))) (?I (k + 5))
        (\<lambda>w. obs w = x)"
      unfolding hoare_def
    proof (intro allI impI)
      fix w assume pre: "obs w = x \<and> commits (job w) = c0 @ map (classified_commit env) (take k cs)"
      obtain r w' where rw: "seq (map (processCommit env) (take 5 (drop k cs))) w = (r, w')"
        by (cases "seq (map (processCommit env) (take 5 (drop k cs))) w")
      from batch_effect [of env "take 5 (drop k cs)" w] rw pre
      have "r = Inr ()" "obs w' = x"
        "commits (job w') = c0 @ map (classified_commit env) (take (k + 5) cs)"
        by (simp_all add: take_add)
      with rw show "case seq (map (processCommit env) (take 5 (drop k cs))) w of
          (Inl m, w') \<Rightarrow> obs w' = x
        | (Inr u, w') \<Rightarrow> obs w' = x \<and>
            commits (job w') = c0 @ map (classified_commit env) (take (k + 5) cs)"
        by simp
    qed
    show "hoare (?I (k + 5))
        (seq [updateJobStatus env Analyzing (15 + js_round (of_nat k / of_nat (length cs) * 25))])
        (?I (k + 5)) (\<lambda>w. obs w = x)"
      by (rule hoare_seq_cons [OF hoare_stable hoare_seq_nil], rule oc_steps)
        (simp_all add: oc_def)
  qed
  have "hoare (?I 0) (batches env cs 0)
      (\<lambda>w. obs w = x \<and> commits (job w) = c0 @ map (classified_commit env) cs) (\<lambda>w. obs w = x)"
    by (rule batches_rule [where I = ?I, OF step]) simp
  then show ?thesis by simp
qed

lemma analyzeCommits_oc:
  "hoare (\<lambda>w. obs w = x \<and> commits (job w) = c0) (analyzeCommits env)
     (\<lambda>w. obs w = x \<and> (\<exists>cs. commits_result env = Inr cs \<and>
        commits (job w) = c0 @ map (classified_commit env) cs))
     (\<lambda>w. obs w = x)"
  unfolding analyzeCommits_def
proof (rule hoare_try_catch [where E' = "\<lambda>w. obs w = x"])
  show "hoare (\<lambda>w. obs w = x \<and> commits (job w) = c0)
     (case commits_result env of Inl m \<Rightarrow> throw m
      | Inr cs \<Rightarrow> seq [emitLog env LvInfo
            [Str ''Found '', Num (of_nat (length cs)), Str '' commits to analyze''] SrcAnalysis,
          batches env cs 0, save env In_analyzeCommits])
     (\<lambda>w. obs w = x \<and> (\<exists>cs. commits_result env = Inr cs \<and>
        commits (job w) = c0 @ map (classified_commit env) cs))
     (\<lambda>w. obs w = x)"
  proof (cases "commits_result env")
    case (Inl m)
    then show ?thesis by (simp add: hoare_def throw_def)
  next
    case (Inr cs)
    have "hoare (\<lambda>w. obs w = x \<and> commits (job w) = c0)
       (seq [emitLog env LvInfo
            [Str ''Found '', Num (of_nat (length cs)), Str '' commits to analyze''] SrcAnalysis,
          batches env cs 0, save env In_analyzeCommits])
       (\<lambda>w. obs w = x \<and> commits (job w) = c0 @ map (classified_commit env) cs)
       (\<lambda>w. obs w = x)"
      apply (rule hoare_seq_cons [OF hoare_stable], rule oc_steps, simp add: oc_def, simp)
      apply (rule hoare_seq_cons [OF batches_oc])
      apply (rule hoare_seq_cons [OF hoare_stable hoare_seq_nil], rule oc_steps)
       apply (simp_all add: oc_def)
      done
    then show ?thesis
      by (simp add: Inr)
  qed
next
  fix m
  show "hoare (\<lambda>w. obs w = x)
     (seq [emitLog env LvError [Str ''Commit analysis failed: '', Str m] SrcAnalysis, throw m])
     (\<lambda>w. obs w = x \<and> (\<exists>cs. commits_result env = Inr cs \<and>
        commits (job w) = c0 @ map (classified_commit env) cs))
     (\<lambda>w. obs w = x)"
    apply (rule hoare_seq_cons [OF hoare_stable], rule obs_frame, simp, simp)
    apply (rule hoare_seq_cons [OF hoare_throw hoare_seq_nil])
    done
qed


lemma keep_soc: "preserves a keep \<Longrightarrow> preserves a (\<lambda>w. (status (job w), oc w))"
  by (simp add: preserves_def keep_def oc_def sp_def)

lemmas soc_frame = keep_all [THEN keep_soc]

lemma soc_update_job:
  "(\<And>j. status (f j) = status j \<and> jobId (f j) = jobId j \<and> commits (f j) = commits j) \<Longrightarrow>
   preserves (update_job f) (\<lambda>w. (status (job w), oc w))"
  by (simp add: preserves_def update_job_def modify_def oc_def obs_def done_events_def)

lemma soc_assign_progress: "preserves (assign_progress p) (\<lambda>w. (status (job w), oc w))"
  by (simp add: preserves_def assign_progress_def modify_def oc_def obs_def done_events_def)

lemma finish_effect:
  "hoare (\<lambda>w. status (job w) = Completed \<and> obs w = x \<and> C (commits (job w)))
     (seq [reading job (\<lambda>j. emit (DoneEvent (success_payload j))), github_cleanup,
           modify (\<lambda>w. w\<lparr>activeJobs := False\<rparr>)])
     (\<lambda>w. status (job w) = Completed \<and> C (commits (job w)) \<and>
        obs w = done_obs x (success_payload (job w)))
     E"
  by (auto simp: hoare_def reading_def emit_def modify_def github_cleanup_def obs_def
      done_obs_def done_events_def)

lemma runAnalysis_try_effect:
  "hoare (\<lambda>w. obs w = x \<and> commits (job w) = c0) (runAnalysis_try env)
     (\<lambda>w. status (job w) = Completed \<and>
        (\<exists>cs. commits_result env = Inr cs \<and>
           commits (job w) = c0 @ map (classified_commit env) cs) \<and>
        obs w = done_obs x (success_payload (job w)))
     (\<lambda>w. obs w = x)"
proof -
  let ?C = "\<lambda>c. \<exists>cs. commits_result env = Inr cs \<and> c = c0 @ map (classified_commit env) cs"
  have completed: "hoare (\<lambda>w. obs w = x \<and> ?C (commits (job w))) (assign_status Completed)
      (\<lambda>w. status (job w) = Completed \<and> obs w = x \<and> ?C (commits (job w))) (\<lambda>w. obs w = x)"
    by (auto simp: hoare_def assign_status_def modify_def obs_def done_events_def)
  show ?thesis
    unfolding runAnalysis_try_def
    apply (rule hoare_seq_cons [OF hoare_stable], rule oc_steps, simp add: oc_def, simp)+
    apply (rule hoare_seq_cons [OF analyzeCommits_oc])
    apply (rule hoare_seq_cons [OF hoare_stable], rule oc_steps, simp add: oc_def, simp)+
    apply (rule hoare_seq_cons [OF completed])
    apply (rule hoare_seq_cons [OF hoare_stable], rule soc_update_job, simp, simp add: oc_def, simp)
    apply (rule hoare_seq_cons [OF hoare_stable], rule soc_assign_progress, simp add: oc_def, simp)
    apply (rule hoare_seq_cons [OF hoare_stable], rule soc_update_job, simp, simp add: oc_def, simp)
    apply (rule hoare_seq_cons [OF hoare_stable], rule soc_frame, simp add: oc_def, simp)+
    apply (rule finish_effect [where C = ?C])
    done
qed

lemma handleAnalysisError_effect:
  "hoare (\<lambda>w. obs w = x) (handleAnalysisError env m)
     (\<lambda>w. status (job w) = Failed \<and>
        (obs w = x \<or> obs w = done_obs x (failure_payload m)) \<and>
        ((\<forall>n. save_error env In_handleAnalysisError n = None) \<longrightarrow>
           obs w = done_obs x (failure_payload m)))
     (\<lambda>w. False)"
  unfolding handleAnalysisError_def
proof (rule hoare_try_catch
    [where E' = "\<lambda>w. status (job w) = Failed \<and> obs w = x \<and>
       (\<exists>n. save_error env In_handleAnalysisError n \<noteq> None)"])
  let ?F = "\<lambda>w. status (job w) = Failed \<and> obs w = x"
  let ?E = "\<lambda>w. status (job w) = Failed \<and> obs w = x \<and>
       (\<exists>n. save_error env In_handleAnalysisError n \<noteq> None)"
  let ?D = "\<lambda>w. status (job w) = Failed \<and> obs w = done_obs x (failure_payload m)"
  have s1: "hoare (\<lambda>w. obs w = x) (assign_status Failed) ?F ?E"
    by (auto simp: hoare_def assign_status_def modify_def obs_def done_events_def)
  have s2: "hoare ?F (update_job f) ?F ?E"
    if "\<And>j. status (f j) = status j \<and> jobId (f j) = jobId j" for f
    using that by (auto simp: hoare_def update_job_def modify_def obs_def done_events_def)
  have s3: "hoare ?F (save env In_handleAnalysisError) ?F ?E"
    by (auto simp: hoare_def save_def obs_def done_events_def split: option.splits)
  have s4: "hoare ?F (emitLog env lv msg src) ?F ?E" for lv msg src
    by (rule hoare_stable_total [OF _ emitLog_returns], rule soc_frame) (simp add: oc_def)
  have s5: "hoare ?F
      (seq [emit (DoneEvent (failure_payload m)), github_cleanup,
            modify (\<lambda>w. w\<lparr>activeJobs := False\<rparr>)]) ?D ?E"
    by (auto simp: hoare_def emit_def modify_def github_cleanup_def obs_def done_obs_def
        done_events_def)
  have "hoare (\<lambda>w. obs w = x)
     (seq [assign_status Failed,
           update_job (\<lambda>j. j\<lparr>endTime_set := True,
             buildInfo := Some \<lparr>b_success = False, b_errors = [m], b_warnings = []\<rparr>\<rparr>),
           save env In_handleAnalysisError,
           emitLog env LvError [Str ''Analysis failed: '', Str m] SrcSystem,
           emit (DoneEvent (failure_payload m)), github_cleanup,
           modify (\<lambda>w. w\<lparr>activeJobs := False\<rparr>)]) ?D ?E"
    apply (rule hoare_seq_cons [OF s1])
    apply (rule hoare_seq_cons [OF s2], simp)
    apply (rule hoare_seq_cons [OF s3])
    apply (rule hoare_seq_cons [OF s4])
    apply (rule s5)
    done
  then show "hoare (\<lambda>w. obs w = x)
     (seq [assign_status Failed,
           update_job (\<lambda>j. j\<lparr>endTime_set := True,
             buildInfo := Some \<lparr>b_success = False, b_errors = [m], b_warnings = []\<rparr>\<rparr>),
           save env In_handleAnalysisError,
           emitLog env LvError [Str ''Analysis failed: '', Str m] SrcSystem,
           emit (DoneEvent (failure_payload m)), github_cleanup,
           modify (\<lambda>w. w\<lparr>activeJobs := False\<rparr>)])
     (\<lambda>w. status (job w) = Failed \<and>
        (obs w = x \<or> obs w = done_obs x (failure_payload m)) \<and>
        ((\<forall>n. save_error env In_handleAnalysisError n = None) \<longrightarrow>
           obs w = done_obs x (failure_payload m))) ?E"
    by (rule hoare_weaken) simp_all
next
  fix saveError :: string
  show "hoare (\<lambda>w. status (job w) = Failed \<and> obs w = x \<and>
       (\<exists>n. save_error env In_handleAnalysisError n \<noteq> None)) succeed
     (\<lambda>w. status (job w) = Failed \<and>
        (obs w = x \<or> obs w = done_obs x (failure_payload m)) \<and>
        ((\<forall>n. save_error env In_handleAnalysisError n = None) \<longrightarrow>
           obs w = done_obs x (failure_payload m)))
     (\<lambda>w. False)"
    by (auto simp: hoare_def succeed_def)
qed

text \<open>The two exit paths of the background run.\<close>

lemma runAnalysis_effect:
  "hoare (\<lambda>w. obs w = x \<and> commits (job w) = c0) (runAnalysis env)
     (\<lambda>w. (status (job w) = Completed \<and>
           (\<exists>cs. commits_result env = Inr cs \<and>
              commits (job w) = c0 @ map (classified_commit env) cs) \<and>
           obs w = done_obs x (success_payload (job w))) \<or>
          (status (job w) = Failed \<and>
           (\<exists>m. (obs w = x \<or> obs w = done_obs x (failure_payload m)) \<and>
              ((\<forall>n. save_error env In_handleAnalysisError n = None) \<longrightarrow>
                 obs w = done_obs x (failure_payload m)))))
     (\<lambda>w. False)"
  unfolding runAnalysis_def
proof (rule hoare_try_catch [where E' = "\<lambda>w. obs w = x"])
  show "hoare (\<lambda>w. obs w = x \<and> commits (job w) = c0) (runAnalysis_try env)
     (\<lambda>w. (status (job w) = Completed \<and>
           (\<exists>cs. commits_result env = Inr cs \<and>
              commits (job w) = c0 @ map (classified_commit env) cs) \<and>
           obs w = done_obs x (success_payload (job w))) \<or>
          (status (job w) = Failed \<and>
           (\<exists>m. (obs w = x \<or> obs w = done_obs x (failure_payload m)) \<and>
              ((\<forall>n. save_error env In_handleAnalysisError n = None) \<longrightarrow>
                 obs w = done_obs x (failure_payload m)))))
     (\<lambda>w. obs w = x)"
    by (rule hoare_weaken [OF runAnalysis_try_effect]; blast)
next
  fix m
  show "hoare (\<lambda>w. obs w = x) (handleAnalysisError env m)
     (\<lambda>w. (status (job w) = Completed \<and>
           (\<exists>cs. commits_result env = Inr cs \<and>
              commits (job w) = c0 @ map (classified_commit env) cs) \<and>
           obs w = done_obs x (success_payload (job w))) \<or>
          (status (job w) = Failed \<and>
           (\<exists>m. (obs w = x \<or> obs w = done_obs x (failure_payload m)) \<and>
              ((\<forall>n. save_error env In_handleAnalysisError n = None) \<longrightarrow>
                 obs w = done_obs x (failure_payload m)))))
     (\<lambda>w. False)"
    by (rule hoare_weaken [OF handleAnalysisError_effect]; blast)
qed

lemma handleAnalysisError_returns: "fst (handleAnalysisError env m w) = Inr ()"
  by (simp add: handleAnalysisError_def try_catch_def succeed_def split: prod.splits sum.splits)

lemma runAnalysis_returns: "fst (runAnalysis env w) = Inr ()"
  by (simp add: runAnalysis_def try_catch_def handleAnalysisError_returns split: prod.splits sum.splits)

lemma startAnalysis_started:
  "save_error env In_startAnalysis 0 = None \<Longrightarrow>
   snd (startAnalysis env jid url ptype) =
     snd (runAnalysis env ((created env jid url ptype)\<lparr>saves := 1, activeJobs := True\<rparr>))"
  using runAnalysis_returns [of env "(created env jid url ptype)\<lparr>saves := 1, activeJobs := True\<rparr>"]
  by (cases "runAnalysis env ((created env jid url ptype)\<lparr>saves := 1, activeJobs := True\<rparr>)")
    (simp add: startAnalysis_def try_catch_def save_def modify_def created_def)

lemma runAnalysis_cases:
  assumes "w' = snd (runAnalysis env w)"
  shows "(status (job w') = Completed \<and>
           (\<exists>cs. commits_result env = Inr cs \<and>
              commits (job w') = commits (job w) @ map (classified_commit env) cs) \<and>
           obs w' = done_obs (obs w) (success_payload (job w'))) \<or>
          (status (job w') = Failed \<and>
           (\<exists>m. (obs w' = obs w \<or> obs w' = done_obs (obs w) (failure_payload m)) \<and>
              ((\<forall>n. save_error env In_handleAnalysisError n = None) \<longrightarrow>
                 obs w' = done_obs (obs w) (failure_payload m))))"
  using hoareD [OF runAnalysis_effect [of "obs w" "commits (job w)" env], of w] assms
  by (cases "runAnalysis env w") (auto split: sum.splits)










section \<open>Runs in which nothing is rejected\<close>




















section \<open>Teardown at the end of a run\<close>

lemma docker_cleanup_logs: "length (console (snd (docker_cleanup r jid s))) > length (console s)"
  by (auto simp: docker_cleanup_def stopContainer_def stop_tolerating_304_def console_log_def
      Let_def split: option.splits prod.splits sum.splits stop_result.splits if_splits)

text \<open>
  C3, as stated, fails: the run never calls the sandbox manager. With a container
  registered for the job, the run ends in a terminal status while the container is still
  in the registry, no \<open>stop\<close> was sent, and the state of DockerService is not the one
  any call of its \<open>cleanup\<close> leaves.
\<close>

theorem sandbox_teardown_not_invoked:
  "terminal (status (job (snd (startAnalysis oracle_down ''job_1'' ''https://github.com/octo/demo'' NodeJS)))) \<and>
   activeContainers (sandbox (snd (startAnalysis oracle_down ''job_1'' ''https://github.com/octo/demo'' NodeJS)))
     ''job_1'' = Some ''c0ffee'' \<and>
   stop_requests (sandbox (snd (startAnalysis oracle_down ''job_1'' ''https://github.com/octo/demo'' NodeJS))) = [] \<and>
   (\<forall>r. sandbox (snd (startAnalysis oracle_down ''job_1'' ''https://github.com/octo/demo'' NodeJS))
      \<noteq> snd (docker_cleanup r ''job_1'' (docker_state oracle_down)))"
proof -
  let ?w0 = "(created oracle_down ''job_1'' ''https://github.com/octo/demo'' NodeJS)\<lparr>saves := 1, activeJobs := True\<rparr>"
  let ?W = "snd (startAnalysis oracle_down ''job_1'' ''https://github.com/octo/demo'' NodeJS)"
  have W: "?W = snd (runAnalysis oracle_down ?w0)"
    by (rule startAnalysis_started) (simp add: oracle_down_def)
  from runAnalysis_cases [OF W]
  have t: "terminal (status (job ?W))" and sb: "sandbox ?W = one_container"
    by (auto simp: terminal_def obs_def done_obs_def created_def oracle_down_def)
  have "sandbox ?W \<noteq> snd (docker_cleanup r ''job_1'' (docker_state oracle_down))" for r
    using docker_cleanup_logs [of one_container r "''job_1''"] sb
    by (auto simp: oracle_down_def)
  with t sb show ?thesis
    by (simp add: one_container_def)
qed

text \<open>
  C3, amended. Every execution of the background run ends with the job in a terminal
  status (completed or failed) and leaves DockerService untouched. The teardown it
  invokes is \<open>githubService.cleanup\<close>, the removal of the job's workspace: when the run
  ends completed, and also when it ends failed in an environment where the save of the
  failed state is not rejected, the \<open>done\<close> event is emitted, that cleanup is invoked
  once for the job and the job is removed from \<open>activeJobs\<close>.
\<close>

theorem runAnalysis_ends_terminal:
  assumes "w' = snd (runAnalysis env w)"
  shows "terminal (status (job w')) \<and> sandbox w' = sandbox w \<and>
     (status (job w') = Completed \<or> (\<forall>n. save_error env In_handleAnalysisError n = None) \<longrightarrow>
        cleanups w' = cleanups w @ [jobId (job w)] \<and> \<not> activeJobs w' \<and>
        (\<exists>d. done_events w' = done_events w @ [DoneEvent d]))"
  using runAnalysis_cases [OF assms]
  by (auto simp: terminal_def obs_def done_obs_def)

theorem runAnalysis_ends_terminal_witness:
  "terminal (status (job (snd (runAnalysis oracle_down
      (created oracle_down ''job_1'' ''https://github.com/octo/demo'' NodeJS))))) \<and>
   cleanups (snd (runAnalysis oracle_down
      (created oracle_down ''job_1'' ''https://github.com/octo/demo'' NodeJS))) = [''job_1''] \<and>
   \<not> activeJobs (snd (runAnalysis oracle_down
      (created oracle_down ''job_1'' ''https://github.com/octo/demo'' NodeJS)))"
  using runAnalysis_ends_terminal [OF refl, of oracle_down
      "created oracle_down ''job_1'' ''https://github.com/octo/demo'' NodeJS"]
  by (simp add: oracle_down_def created_def new_job_def)

section \<open>Alerts for commits\<close>




section \<open>Progress and status\<close>

lemma startAnalysis_history:
  "history (snd (startAnalysis env jid url ptype)) \<noteq> [] \<and>
   hd (history (snd (startAnalysis env jid url ptype))) = (Pending, 0) \<and>
   last (history (snd (startAnalysis env jid url ptype))) =
     (status (job (snd (startAnalysis env jid url ptype))),
      progress (job (snd (startAnalysis env jid url ptype)))) \<and>
   successively step_ok (history (snd (startAnalysis env jid url ptype)))"
  using startAnalysis_chain [of env jid url ptype] by (simp add: chain_def sp_def)

text \<open>
  C6. The history of a job records every assignment to its status or progress, the
  per-batch updates of commit analysis among them. It starts at progress 0, ends with
  the job's current progress, and its progress values never decrease, on every run and
  whatever fails.
\<close>

theorem progress_monotone:
  "hd (map snd (history (snd (startAnalysis env jid url ptype)))) = 0 \<and>
   last (map snd (history (snd (startAnalysis env jid url ptype)))) =
     progress (job (snd (startAnalysis env jid url ptype))) \<and>
   sorted (map snd (history (snd (startAnalysis env jid url ptype))))"
proof -
  let ?h = "history (snd (startAnalysis env jid url ptype))"
  note h = startAnalysis_history [of env jid url ptype]
  from h have "successively (\<le>) (map snd ?h)"
    unfolding successively_map by (auto elim: successively_mono simp: step_ok_def)
  then have "sorted (map snd ?h)"
    by (simp add: successively_conv_sorted_wrt [OF transp_on_le])
  with h show ?thesis by (simp add: hd_map last_map)
qed

theorem progress_monotone_witness:
  "sorted (map snd (history (snd (startAnalysis risky_commit ''job_1'' ''https://github.com/octo/demo'' NodeJS))))"
  using progress_monotone [of risky_commit "''job_1''" "''https://github.com/octo/demo''" NodeJS] by simp

lemma code_move_terminal: "code_move s t \<Longrightarrow> terminal s \<Longrightarrow> terminal t"
  by (auto simp: code_move_def spec_move_def terminal_def)

text \<open>
  C4, as stated, fails: when the save of the completed job is rejected, the \<open>catch\<close>
  of runAnalysis hands the error to handleAnalysisError, which sets the status of the
  already completed job to failed. Failed is entered from a terminal state.
\<close>

theorem completed_job_becomes_failed:
  "\<not> successively spec_move
     (map fst (history (snd (startAnalysis completion_not_saved ''job_1'' ''https://github.com/octo/demo'' NodeJS))))"
proof -
  have "map fst (history (snd (startAnalysis completion_not_saved ''job_1'' ''https://github.com/octo/demo'' NodeJS))) =
      [Pending, Cloning, Cloning, Cloning, Cloning, Analyzing, Analyzing, Analyzing, Analyzing,
       Analyzing, Analyzing, Analyzing, Analyzing, Completed, Completed, Failed]"
    by code_simp
  then show ?thesis
    by (simp add: spec_move_def terminal_def)
qed

text \<open>
  C4, amended. The status of a job starts as pending and only moves along pending,
  cloning, analyzing, completed, or to failed, from a non-terminal state or from
  completed (when the completed job could not be saved); failed is never left, and no
  move leads from a terminal state to a non-terminal one.
\<close>

theorem status_moves:
  "hd (map fst (history (snd (startAnalysis env jid url ptype)))) = Pending \<and>
   last (map fst (history (snd (startAnalysis env jid url ptype)))) =
     status (job (snd (startAnalysis env jid url ptype))) \<and>
   successively (\<lambda>s t. code_move s t \<and> \<not> (terminal s \<and> \<not> terminal t))
     (map fst (history (snd (startAnalysis env jid url ptype))))"
proof -
  let ?h = "history (snd (startAnalysis env jid url ptype))"
  note h = startAnalysis_history [of env jid url ptype]
  from h have "successively (\<lambda>s t. code_move s t \<and> \<not> (terminal s \<and> \<not> terminal t)) (map fst ?h)"
    unfolding successively_map
    by (auto elim!: successively_mono simp: step_ok_def dest: code_move_terminal)
  with h show ?thesis by (simp add: hd_map last_map)
qed

theorem status_moves_witness:
  "successively (\<lambda>s t. code_move s t \<and> \<not> (terminal s \<and> \<not> terminal t))
     (map fst (history (snd (startAnalysis completion_not_saved ''job_1'' ''https://github.com/octo/demo'' NodeJS))))"
  using status_moves [of completion_not_saved "''job_1''" "''https://github.com/octo/demo''" NodeJS] by simp


section \<open>Failures the code does not contain\<close>

text \<open>
  C2 at a failing input. The database accepts the new job and then becomes
  unreachable. The first status update throws, handleAnalysisError sets the status to
  failed and its own save throws, too: the job ends failed with no \<open>done\<close> event at
  all, its workspace is not removed and it stays in \<open>activeJobs\<close>.
\<close>

theorem failed_run_without_done_event:
  "let w = snd (startAnalysis database_down ''job_1'' ''https://github.com/octo/demo'' NodeJS)
   in status (job w) = Failed \<and> done_events w = [] \<and> cleanups w = [] \<and> activeJobs w"
  by code_simp

text \<open>
  C8 at a failing input. Only the two saves of calculateRiskScore are rejected. The
  \<open>catch\<close> block assigns 50 and medium, logs, and its own save throws out of
  calculateRiskScore: the job fails in the scoring phase (progress 80) with that error.
\<close>

theorem scoring_error_fails_the_job:
  "let j = job (snd (startAnalysis score_not_saved ''job_1'' ''https://github.com/octo/demo'' NodeJS))
   in status j = Failed \<and> progress j = 80 \<and>
      riskScore j = Some (Fin 50) \<and> riskLevel j = Some LevelMedium \<and>
      buildInfo j =
        Some \<lparr>b_success = False, b_errors = [''database unreachable''], b_warnings = []\<rparr>"
  by code_simp

text \<open>
  C5 at a failing input. With the oracle unavailable the adapter returns the object of
  parseAIResponse that only says the response could not be parsed, never the fallback
  analysis: the verdict attached to the commit and to the dependency has no summary and
  confidence 0, not 0.1, with risk score 0 and tier safe. The job still ends completed
  with score 0 and level low.
\<close>

theorem unavailable_oracle_verdict:
  "analyzeCommit False (json_parse oracle_down) HttpFailed =
     parse_failure ''Could not parse AI response'' (Some fallback_response) \<and>
   classified_commit oracle_down sample_commit =
     sample_commit\<lparr>c_riskScore := 0,
       c_aiAnalysis := Some \<lparr>v_summary = None, v_threats = [], v_confidence = Fin 0\<rparr>\<rparr> \<and>
   d_riskLevel (analyzed_dependency oracle_down sample_dependency) = Safe \<and>
   d_aiAnalysis (analyzed_dependency oracle_down sample_dependency) =
     Some \<lparr>v_summary = None, v_threats = [], v_confidence = Fin 0\<rparr> \<and>
   an_confidence getFallbackCommitAnalysis = JSNumber (Fin (1 / 10)) \<and>
   (let j = job (snd (startAnalysis oracle_down ''job_1'' ''https://github.com/octo/demo'' NodeJS))
    in status j = Completed \<and> riskScore j = Some (Fin 0) \<and> riskLevel j = Some LevelLow)"
  by code_simp

end
